theory Spec2Isabelle
  imports Main
begin

section \<open>JavaScript values\<close>

text \<open>
  The worker handles values decoded from JSON and values read from the key-value store.
  A value is \<open>undefined\<close>, \<open>null\<close>, a boolean, a number or a string. Numbers are
  modelled as integers (the identifiers, minute counts and epoch milliseconds the worker
  handles); strings are lists of 8-bit characters.
\<close>

datatype jsval = JUndefined | JNull | JBool bool | JNum int | JStr string

text \<open>Truthiness, as tested by \<open>if (v)\<close>, \<open>!v\<close>, \<open>a || b\<close> and \<open>a && b\<close>.\<close>

fun truthy :: "jsval \<Rightarrow> bool" where
  "truthy JUndefined = False"
| "truthy JNull = False"
| "truthy (JBool b) = b"
| "truthy (JNum n) = (n \<noteq> 0)"
| "truthy (JStr s) = (s \<noteq> [])"

text \<open>\<open>a || b\<close> on values.\<close>

definition js_or :: "jsval \<Rightarrow> jsval \<Rightarrow> jsval" where
  "js_or a b = (if truthy a then a else b)"

definition digit_char :: "nat \<Rightarrow> char" where
  "digit_char d = ''0123456789'' ! d"

text \<open>Decimal digits of a natural number, least significant digit first onto the accumulator.\<close>

fun show_nat_acc :: "nat \<Rightarrow> string \<Rightarrow> string" where
  "show_nat_acc n acc =
     (let acc' = digit_char (n mod 10) # acc
      in if n < 10 then acc' else show_nat_acc (n div 10) acc')"

text \<open>\<open>Number.prototype.toString\<close> on an integer.\<close>

definition number_to_string :: "int \<Rightarrow> string" where
  "number_to_string i =
     (if 0 \<le> i then show_nat_acc (nat i) [] else CHR ''-'' # show_nat_acc (nat (- i)) [])"

text \<open>
  String conversion, as performed by a template literal \<open>`${v}`\<close>. A number is printed in
  decimal, as JavaScript prints the integers below \<open>1e21\<close> in size.
\<close>

fun to_str :: "jsval \<Rightarrow> string" where
  "to_str JUndefined = ''undefined''"
| "to_str JNull = ''null''"
| "to_str (JBool b) = (if b then ''true'' else ''false'')"
| "to_str (JNum n) = number_to_string n"
| "to_str (JStr s) = s"

section \<open>Strings\<close>

abbreviation nl :: char where "nl \<equiv> CHR 0x0A"
abbreviation cr :: char where "cr \<equiv> CHR 0x0D"
abbreviation backslash :: char where "backslash \<equiv> CHR 0x5C"
abbreviation dquote :: char where "dquote \<equiv> CHR 0x22"
abbreviation crlf :: string where "crlf \<equiv> [cr, nl]"

text \<open>The two-character sequence written \<open>\\n\<close> in the source's template literals.\<close>

abbreviation esc_n :: string where "esc_n \<equiv> [backslash, CHR ''n'']"

text \<open>\<open>s.replace(/\n/g, '\\n')\<close>\<close>

definition escapeNewlines :: "string \<Rightarrow> string" where
  "escapeNewlines s = concat (map (\<lambda>c. if c = nl then esc_n else [c]) s)"

text \<open>\<open>s.replace(/,/g, '\\,')\<close>\<close>

definition escapeCommas :: "string \<Rightarrow> string" where
  "escapeCommas s = concat (map (\<lambda>c. if c = CHR '','' then [backslash, CHR '',''] else [c]) s)"

fun startsWith :: "string \<Rightarrow> string \<Rightarrow> bool" where
  "startsWith s [] = True"
| "startsWith [] (p # ps) = False"
| "startsWith (c # cs) (p # ps) = (c = p \<and> startsWith cs ps)"

text \<open>\<open>s.includes(sub)\<close>\<close>

fun str_includes :: "string \<Rightarrow> string \<Rightarrow> bool" where
  "str_includes [] sub = (sub = [])"
| "str_includes (c # cs) sub = (startsWith (c # cs) sub \<or> str_includes cs sub)"

text \<open>
  The replacement text of \<open>String.prototype.replace\<close> for a match without capture groups:
  \<open>$$\<close> is a dollar sign, \<open>$&\<close> the matched text, \<open>$`\<close> the text before the match and
  \<open>$'\<close> the text after it; every other character stands for itself.
\<close>

fun substitution :: "string \<Rightarrow> string \<Rightarrow> string \<Rightarrow> string \<Rightarrow> string" where
  "substitution matched pre post [] = []"
| "substitution matched pre post [c] = [c]"
| "substitution matched pre post (c # d # rest) =
     (if c = CHR ''$'' \<and> d = CHR ''$'' then CHR ''$'' # substitution matched pre post rest
      else if c = CHR ''$'' \<and> d = CHR ''&'' then matched @ substitution matched pre post rest
      else if c = CHR ''$'' \<and> d = CHR 0x60 then pre @ substitution matched pre post rest
      else if c = CHR ''$'' \<and> d = CHR 0x27 then post @ substitution matched pre post rest
      else c # substitution matched pre post (d # rest))"

text \<open>
  \<open>s.replace(pattern, replacement)\<close> with a string pattern: only the first occurrence,
  compared character by character, is replaced. The accumulator holds the text already
  passed, reversed.
\<close>

fun replace_first_from :: "string \<Rightarrow> string \<Rightarrow> string \<Rightarrow> string \<Rightarrow> string" where
  "replace_first_from pat repl pre [] =
     (if pat = [] then rev pre @ substitution [] (rev pre) [] repl else rev pre)"
| "replace_first_from pat repl pre (c # cs) =
     (if startsWith (c # cs) pat
      then rev pre @ substitution pat (rev pre) (drop (length pat) (c # cs)) repl
             @ drop (length pat) (c # cs)
      else replace_first_from pat repl (c # pre) cs)"

definition replace_string :: "string \<Rightarrow> string \<Rightarrow> string \<Rightarrow> string" where
  "replace_string s pat repl = replace_first_from pat repl [] s"

text \<open>
  Case folding of the \<open>i\<close> flag of a regular expression: a character is compared by its
  upper-case form. Characters are code units below 256: the letters a to z and the Latin-1
  letters \<open>0xE0\<close> to \<open>0xFE\<close> (but not the division sign \<open>0xF7\<close>) fold to the
  character 32 places before them; every other character, also the sharp s, the micro sign
  and the y with diaeresis, whose upper-case forms are no single code unit below 256, stands
  for itself.
\<close>

definition lowerLetters :: string where
  "lowerLetters =
     ''abcdefghijklmnopqrstuvwxyz''
     @ [CHR 0xE0, CHR 0xE1, CHR 0xE2, CHR 0xE3, CHR 0xE4, CHR 0xE5, CHR 0xE6, CHR 0xE7,
        CHR 0xE8, CHR 0xE9, CHR 0xEA, CHR 0xEB, CHR 0xEC, CHR 0xED, CHR 0xEE, CHR 0xEF,
        CHR 0xF0, CHR 0xF1, CHR 0xF2, CHR 0xF3, CHR 0xF4, CHR 0xF5, CHR 0xF6, CHR 0xF8,
        CHR 0xF9, CHR 0xFA, CHR 0xFB, CHR 0xFC, CHR 0xFD, CHR 0xFE]"

definition upperLetters :: string where
  "upperLetters =
     ''ABCDEFGHIJKLMNOPQRSTUVWXYZ''
     @ [CHR 0xC0, CHR 0xC1, CHR 0xC2, CHR 0xC3, CHR 0xC4, CHR 0xC5, CHR 0xC6, CHR 0xC7,
        CHR 0xC8, CHR 0xC9, CHR 0xCA, CHR 0xCB, CHR 0xCC, CHR 0xCD, CHR 0xCE, CHR 0xCF,
        CHR 0xD0, CHR 0xD1, CHR 0xD2, CHR 0xD3, CHR 0xD4, CHR 0xD5, CHR 0xD6, CHR 0xD8,
        CHR 0xD9, CHR 0xDA, CHR 0xDB, CHR 0xDC, CHR 0xDD, CHR 0xDE]"

definition upper :: "char \<Rightarrow> char" where
  "upper c = (case map_of (zip lowerLetters upperLetters) c of None \<Rightarrow> c | Some u \<Rightarrow> u)"

definition matches_ci :: "string \<Rightarrow> string \<Rightarrow> bool" where
  "matches_ci s pat =
     (length pat \<le> length s \<and> map upper (take (length pat) s) = map upper pat)"

text \<open>
  \<open>s.replace(new RegExp(escaped, 'gi'), replacement)\<close>, where \<open>escaped\<close> is the pattern
  text with every regular-expression metacharacter escaped, so that the expression matches
  the pattern text literally: every occurrence, found from left to right and compared
  without regard to case, is replaced.
\<close>

function replace_all_ci :: "string \<Rightarrow> string \<Rightarrow> string \<Rightarrow> string \<Rightarrow> string" where
  "replace_all_ci pat repl pre [] = []"
| "replace_all_ci pat repl pre (c # cs) =
     (if pat \<noteq> [] \<and> matches_ci (c # cs) pat
      then substitution (take (length pat) (c # cs)) (rev pre)
             (drop (length pat) (c # cs)) repl
           @ replace_all_ci pat repl (rev (take (length pat) (c # cs)) @ pre)
               (drop (length pat) (c # cs))
      else c # replace_all_ci pat repl (c # pre) cs)"
  by pat_completeness auto
termination
  by (relation "measure (\<lambda>(pat, repl, pre, s). length s)") (auto simp: neq_Nil_conv)

definition replace_regex_gi :: "string \<Rightarrow> string \<Rightarrow> string \<Rightarrow> string" where
  "replace_regex_gi s pat repl = replace_all_ci pat repl [] s"

section \<open>Numbers and dates\<close>

definition is_space :: "char \<Rightarrow> bool" where
  "is_space c = (c \<in> set [CHR '' '', CHR 0x09, CHR 0x0A, CHR 0x0B, CHR 0x0C, CHR 0x0D, CHR 0xA0])"

definition digit_value :: "char \<Rightarrow> nat option" where
  "digit_value c =
     map_of (zip ''0123456789abcdefABCDEF''
       [0, 1, 2, 3, 4, 5, 6, 7, 8, 9, 10, 11, 12, 13, 14, 15, 10, 11, 12, 13, 14, 15]) c"

definition in_radix :: "nat \<Rightarrow> char \<Rightarrow> bool" where
  "in_radix r c = (case digit_value c of None \<Rightarrow> False | Some d \<Rightarrow> d < r)"

definition digits_value :: "nat \<Rightarrow> string \<Rightarrow> nat" where
  "digits_value r ds = foldl (\<lambda>a c. a * r + (case digit_value c of None \<Rightarrow> 0 | Some d \<Rightarrow> d)) 0 ds"

text \<open>
  \<open>parseInt(s)\<close> without a radix: leading white space, an optional sign, an optional
  \<open>0x\<close> prefix, then the longest run of digits; \<open>None\<close> is \<open>NaN\<close>.
\<close>

definition parseInt :: "string \<Rightarrow> int option" where
  "parseInt s =
     (let s1 = dropWhile is_space s;
          neg = (case s1 of [] \<Rightarrow> False | c # _ \<Rightarrow> c = CHR ''-'');
          s2 = (case s1 of [] \<Rightarrow> [] | c # cs \<Rightarrow> if c = CHR ''-'' \<or> c = CHR ''+'' then cs else s1);
          hex = (startsWith s2 ''0x'' \<or> startsWith s2 ''0X'');
          radix = (if hex then 16 else 10);
          ds = takeWhile (in_radix radix) (if hex then drop 2 s2 else s2)
      in if ds = [] then None
         else Some (if neg then - int (digits_value radix ds) else int (digits_value radix ds)))"

text \<open>
  A \<open>Date\<close> is its time value in epoch milliseconds, \<open>None\<close> for an invalid date.
  \<open>new Date(n)\<close> is invalid outside the range of \<open>8.64e15\<close> milliseconds.
\<close>

type_synonym date = "int option"

definition timeClip :: "int option \<Rightarrow> date" where
  "timeClip t =
     (case t of
        None \<Rightarrow> None
      | Some n \<Rightarrow> if \<bar>n\<bar> \<le> 8640000000000000 then Some n else None)"

text \<open>\<open>a <= b\<close> on dates: false as soon as one of them is invalid.\<close>

definition date_le :: "date \<Rightarrow> date \<Rightarrow> bool" where
  "date_le a b = (case (a, b) of (Some x, Some y) \<Rightarrow> x \<le> y | _ \<Rightarrow> False)"

section \<open>The runtime library\<close>

text \<open>
  Parsed JSON, as far as the worker reads it: a primitive value, or an object whose members
  are primitive values.
\<close>

datatype json = JPrim jsval | JObject "(string \<times> jsval) list"

fun truthy_json :: "json \<Rightarrow> bool" where
  "truthy_json (JPrim v) = truthy v"
| "truthy_json (JObject ms) = True"

text \<open>Property access \<open>j.k\<close> on a parsed value; the last member of a name wins.\<close>

fun get_member :: "json \<Rightarrow> string \<Rightarrow> jsval" where
  "get_member (JPrim v) k = JUndefined"
| "get_member (JObject ms) k =
     (case find (\<lambda>m. fst m = k) (rev ms) of None \<Rightarrow> JUndefined | Some m \<Rightarrow> snd m)"

text \<open>
  The functions of the JavaScript runtime that the worker calls and that are not modelled
  here: the SHA-256 digest (as lower-case hexadecimal text), date parsing and formatting,
  and JSON. \<open>date_parse\<close> returns \<open>None\<close> for an unparseable date; \<open>toLocaleTimeString\<close>
  takes the date and the time zone option and returns \<open>None\<close> where the runtime throws a
  \<open>RangeError\<close>; \<open>json_parse\<close> returns \<open>None\<close> where \<open>JSON.parse\<close> throws a
  \<open>SyntaxError\<close>.
\<close>

record runtime =
  sha256_hex :: "string \<Rightarrow> string"
  date_parse :: "string \<Rightarrow> int option"
  toUTCString :: "int \<Rightarrow> string"
  toISOString :: "int \<Rightarrow> string"
  toLocaleTimeString :: "date \<Rightarrow> string option \<Rightarrow> string option"
  json_parse :: "string \<Rightarrow> json option"
  json_stringify :: "json \<Rightarrow> string"

datatype exn = SyntaxError | TypeError | RangeError | NetworkFailure

text \<open>\<open>new Date(v)\<close>\<close>

fun newDate :: "runtime \<Rightarrow> jsval \<Rightarrow> date" where
  "newDate rt JUndefined = None"
| "newDate rt JNull = Some 0"
| "newDate rt (JBool b) = Some (if b then 1 else 0)"
| "newDate rt (JNum n) = timeClip (Some n)"
| "newDate rt (JStr s) = timeClip (date_parse rt s)"

text \<open>\<open>d.toUTCString()\<close>\<close>

definition utcString :: "runtime \<Rightarrow> date \<Rightarrow> string" where
  "utcString rt d = (case d of None \<Rightarrow> ''Invalid Date'' | Some t \<Rightarrow> toUTCString rt t)"

text \<open>\<open>s.replace(/\.\d{3}/, '')\<close>: the first dot followed by three digits is removed.\<close>

fun dropMillis :: "string \<Rightarrow> string" where
  "dropMillis (c # d1 # d2 # d3 # rest) =
     (if c = CHR ''.'' \<and> in_radix 10 d1 \<and> in_radix 10 d2 \<and> in_radix 10 d3 then rest
      else c # dropMillis (d1 # d2 # d3 # rest))"
| "dropMillis s = s"

text \<open>
  \<open>formatDate\<close> of \<open>serveCalendar\<close>:
  \<open>date.toISOString().replace(/[-:]/g, '').replace(/\.\d{3}/, '')\<close>;
  \<open>toISOString\<close> throws a \<open>RangeError\<close> on an invalid date.
\<close>

definition formatDate :: "runtime \<Rightarrow> date \<Rightarrow> exn + string" where
  "formatDate rt d =
     (case d of
        None \<Rightarrow> Inl RangeError
      | Some t \<Rightarrow>
          Inr (dropMillis (filter (\<lambda>c. c \<noteq> CHR ''-'' \<and> c \<noteq> CHR '':'') (toISOString rt t))))"

section \<open>Upstream items\<close>

text \<open>
  An item of an upstream collection carries a \<open>data\<close> array of \<open>{name, value}\<close> pairs;
  \<open>None\<close> stands for an item without a \<open>data\<close> array.
\<close>

type_synonym field = "string \<times> jsval"
type_synonym item = "field list option"

text \<open>\<open>event.data?.find(d => d.name === n)?.value\<close>\<close>

definition find_value :: "item \<Rightarrow> string \<Rightarrow> jsval" where
  "find_value ev n =
     (case ev of
        None \<Rightarrow> JUndefined
      | Some fs \<Rightarrow> (case find (\<lambda>d. fst d = n) fs of None \<Rightarrow> JUndefined | Some d \<Rightarrow> snd d))"

text \<open>The first filter of \<open>serveCalendar\<close>: cancelled events are dropped.\<close>

definition dropCancelled :: "item list \<Rightarrow> item list" where
  "dropCancelled events = filter (\<lambda>ev. \<not> truthy (find_value ev ''is_canceled'')) events"

text \<open>The second filter of \<open>serveCalendar\<close>, applied when the filter type is \<open>'games'\<close>.\<close>

definition applyFilter :: "jsval \<Rightarrow> item list \<Rightarrow> item list" where
  "applyFilter filterType events =
     (if filterType = JStr ''games''
      then filter (\<lambda>ev. find_value ev ''game_type'' = JStr ''Game''
                        \<or> truthy (find_value ev ''opponent_name'')) events
      else events)"

section \<open>The store, the upstream service and the clock\<close>

definition TEAMSNAP_TOKEN_URL :: string where
  "TEAMSNAP_TOKEN_URL = ''https://auth.teamsnap.com/oauth/token''"

definition TEAMSNAP_API_URL :: string where
  "TEAMSNAP_API_URL = ''https://api.teamsnap.com/v3''"

text \<open>
  What a request of the worker does to the outside: a write or a delete on the key-value
  store (with the \<open>expirationTtl\<close> option of the write) and a request to the upstream
  service. Reads of the store are not recorded.
\<close>

datatype effect = KvPut string string "int option" | KvDelete string | Fetch string

text \<open>
  The state a request runs in: the contents of the key-value store, the effects so far, and
  the number of clock readings taken so far.
\<close>

record world =
  kv :: "string \<rightharpoonup> string"
  log :: "effect list"
  tick :: nat

text \<open>
  The outcome of \<open>fetch\<close>: the request fails (the promise rejects), or a response arrives
  with its status, its text and what \<open>response.json()\<close> gives (\<open>None\<close> when the body is
  not JSON).
\<close>

datatype 'a http = NetworkError | Response nat string "'a option"

definition ok :: "nat \<Rightarrow> bool" where
  "ok st = (200 \<le> st \<and> st \<le> 299)"

text \<open>The token document of the OAuth token endpoint.\<close>

record token_doc =
  access_token :: string
  expires_in :: int
  refresh_token :: "string option"

text \<open>
  A document of the upstream API: the items of its collection, \<open>None\<close> when the document
  is \<open>null\<close> or has no \<open>collection.items\<close>.
\<close>

type_synonym api_doc = "item list option"

text \<open>
  The environment of the worker: its configured variables, the upstream API (by URL and
  bearer token), the token endpoint (by form body) and the clock (its successive readings).
\<close>

record env =
  TEAMSNAP_CLIENT_ID :: "string option"
  TEAMSNAP_CLIENT_SECRET :: "string option"
  api :: "string \<Rightarrow> string \<Rightarrow> api_doc http"
  token_endpoint :: "(string \<times> string) list \<Rightarrow> token_doc http"
  clock :: "nat \<Rightarrow> int"

text \<open>Truthiness of what \<open>get\<close> on the store returns: a string or \<open>null\<close>.\<close>

definition present :: "string option \<Rightarrow> bool" where
  "present v = (case v of None \<Rightarrow> False | Some s \<Rightarrow> s \<noteq> [])"

definition kv_value :: "string option \<Rightarrow> jsval" where
  "kv_value v = (case v of None \<Rightarrow> JNull | Some s \<Rightarrow> JStr s)"

definition kv_put :: "string \<Rightarrow> string \<Rightarrow> int option \<Rightarrow> world \<Rightarrow> world" where
  "kv_put k v ttl w = w\<lparr>kv := (kv w)(k \<mapsto> v), log := log w @ [KvPut k v ttl]\<rparr>"

definition kv_delete :: "string \<Rightarrow> world \<Rightarrow> world" where
  "kv_delete k w = w\<lparr>kv := (kv w)(k := None), log := log w @ [KvDelete k]\<rparr>"

text \<open>\<open>Date.now()\<close> and \<open>new Date()\<close>: the next reading of the clock.\<close>

definition date_now :: "env \<Rightarrow> world \<Rightarrow> int \<times> world" where
  "date_now e w = (clock e (tick w), w\<lparr>tick := Suc (tick w)\<rparr>)"

definition fetch_api :: "env \<Rightarrow> string \<Rightarrow> string \<Rightarrow> world \<Rightarrow> api_doc http \<times> world" where
  "fetch_api e url bearer w = (api e url bearer, w\<lparr>log := log w @ [Fetch url]\<rparr>)"

definition fetch_token ::
  "env \<Rightarrow> (string \<times> string) list \<Rightarrow> world \<Rightarrow> token_doc http \<times> world" where
  "fetch_token e form w = (token_endpoint e form, w\<lparr>log := log w @ [Fetch TEAMSNAP_TOKEN_URL]\<rparr>)"

section \<open>OAuth token refresh\<close>

text \<open>The form body of the refresh request; an unset variable is sent as \<open>undefined\<close>.\<close>

definition refreshForm :: "env \<Rightarrow> string \<Rightarrow> (string \<times> string) list" where
  "refreshForm e refreshToken =
     [(''grant_type'', ''refresh_token''),
      (''refresh_token'', refreshToken),
      (''client_id'', (case TEAMSNAP_CLIENT_ID e of None \<Rightarrow> ''undefined'' | Some c \<Rightarrow> c)),
      (''client_secret'', (case TEAMSNAP_CLIENT_SECRET e of None \<Rightarrow> ''undefined'' | Some c \<Rightarrow> c))]"

text \<open>The stores of \<open>refreshAccessToken\<close> after a successful response.\<close>

definition storeTokens :: "env \<Rightarrow> token_doc \<Rightarrow> world \<Rightarrow> world" where
  "storeTokens e tokenData w =
     (let w1 = kv_put ''oauth_access_token'' (access_token tokenData)
                 (Some (expires_in tokenData)) w;
          w2 = (if present (refresh_token tokenData)
                then kv_put ''oauth_refresh_token''
                       (case refresh_token tokenData of None \<Rightarrow> [] | Some r \<Rightarrow> r) None w1
                else w1);
          (now, w3) = date_now e w2
      in kv_put ''oauth_expires_at''
           (number_to_string (now + expires_in tokenData * 1000)) None w3)"

text \<open>
  \<open>refreshAccessToken\<close>: \<open>None\<close> is the \<open>null\<close> it returns. A failed request and a body
  that is not JSON are caught by its \<open>try\<close>/\<open>catch\<close>.
\<close>

definition refreshAccessToken :: "env \<Rightarrow> world \<Rightarrow> token_doc option \<times> world" where
  "refreshAccessToken e w =
     (case kv w ''oauth_refresh_token'' of
        None \<Rightarrow> (None, w)
      | Some refreshToken \<Rightarrow>
          if refreshToken = [] then (None, w)
          else
            (case fetch_token e (refreshForm e refreshToken) w of
               (NetworkError, w1) \<Rightarrow> (None, w1)
             | (Response st txt js, w1) \<Rightarrow>
                 if ok st then
                   (case js of
                      None \<Rightarrow> (None, w1)
                    | Some tokenData \<Rightarrow> (Some tokenData, storeTokens e tokenData w1))
                 else (None, w1)))"

section \<open>Upstream requests\<close>

text \<open>\<open>response.ok ? await response.json() : null\<close>\<close>

definition jsonOrNull :: "nat \<Rightarrow> api_doc option \<Rightarrow> exn + api_doc" where
  "jsonOrNull st js =
     (if ok st then (case js of None \<Rightarrow> Inl SyntaxError | Some d \<Rightarrow> Inr d) else Inr None)"

text \<open>
  \<open>fetchTeamSnapData\<close>: the document, \<open>None\<close> for the \<open>null\<close> it returns; a failed
  request and a body that is not JSON are exceptions it does not catch.
\<close>

definition fetchTeamSnapData :: "env \<Rightarrow> string \<Rightarrow> world \<Rightarrow> (exn + api_doc) \<times> world" where
  "fetchTeamSnapData e endpoint w =
     (let (accessToken, w1) =
            (if present (kv w ''oauth_access_token'') then (kv w ''oauth_access_token'', w)
             else (case refreshAccessToken e w of
                     (None, w') \<Rightarrow> (None, w')
                   | (Some newTokens, w') \<Rightarrow> (Some (access_token newTokens), w')))
      in case accessToken of
           None \<Rightarrow> (Inr None, w1)
         | Some tok \<Rightarrow>
             (case fetch_api e (TEAMSNAP_API_URL @ endpoint) tok w1 of
                (NetworkError, w2) \<Rightarrow> (Inl NetworkFailure, w2)
              | (Response st txt js, w2) \<Rightarrow>
                  if st = 401 then
                    (case refreshAccessToken e w2 of
                       (None, w3) \<Rightarrow> (Inr None, w3)
                     | (Some newTokens, w3) \<Rightarrow>
                         (case fetch_api e (TEAMSNAP_API_URL @ endpoint)
                                 (access_token newTokens) w3 of
                            (NetworkError, w4) \<Rightarrow> (Inl NetworkFailure, w4)
                          | (Response st' txt' js', w4) \<Rightarrow> (jsonOrNull st' js', w4)))
                  else (jsonOrNull st js, w2)))"

section \<open>Calendar tokens\<close>

text \<open>\<open>generateCalendarToken\<close>; the team id is a parameter the function does not use.\<close>

definition generateCalendarToken ::
  "runtime \<Rightarrow> env \<Rightarrow> jsval \<Rightarrow> string \<Rightarrow> jsval \<Rightarrow> string" where
  "generateCalendarToken rt e teamId filterType teamName =
     (let clientSecret =
            (if present (TEAMSNAP_CLIENT_SECRET e)
             then (case TEAMSNAP_CLIENT_SECRET e of None \<Rightarrow> [] | Some c \<Rightarrow> c)
             else ''fallback-salt'');
          data = to_str teamName @ '':'' @ filterType @ '':'' @ clientSecret
      in take 32 (sha256_hex rt data))"

definition tokenKey :: "string \<Rightarrow> string" where
  "tokenKey token = ''calendar_token:'' @ token"

text \<open>
  The object \<open>{teamId: ..., filterType: ...}\<close> as \<open>JSON.stringify\<close> sees it: a member whose
  value is \<open>undefined\<close> is left out.
\<close>

definition mappingObject :: "jsval \<Rightarrow> string \<Rightarrow> json" where
  "mappingObject teamId filterType =
     JObject (filter (\<lambda>m. snd m \<noteq> JUndefined)
       [(''teamId'', teamId), (''filterType'', JStr filterType)])"

text \<open>
  Issuing a token, as \<open>handleTeamsApi\<close> does for each team and filter type: the token is
  generated and the mapping is stored under it for a year.
\<close>

definition issue :: "runtime \<Rightarrow> env \<Rightarrow> jsval \<Rightarrow> string \<Rightarrow> jsval \<Rightarrow> world \<Rightarrow> string \<times> world" where
  "issue rt e teamId filterType teamName w =
     (let token = generateCalendarToken rt e teamId filterType teamName
      in (token,
          kv_put (tokenKey token) (json_stringify rt (mappingObject teamId filterType))
            (Some 31536000) w))"

text \<open>The two tokens of one team in \<open>handleTeamsApi\<close>: all events, then games only.\<close>

definition issueTeamCalendars ::
  "runtime \<Rightarrow> env \<Rightarrow> jsval \<Rightarrow> jsval \<Rightarrow> world \<Rightarrow> (string \<times> string) \<times> world" where
  "issueTeamCalendars rt e teamId teamName w =
     (let allEventsToken = generateCalendarToken rt e teamId ''all'' teamName;
          gamesOnlyToken = generateCalendarToken rt e teamId ''games'' teamName;
          w1 = kv_put (tokenKey allEventsToken)
                 (json_stringify rt (mappingObject teamId ''all'')) (Some 31536000) w;
          w2 = kv_put (tokenKey gamesOnlyToken)
                 (json_stringify rt (mappingObject teamId ''games'')) (Some 31536000) w1
      in ((allEventsToken, gamesOnlyToken), w2))"

text \<open>
  \<open>parseCalendarToken\<close>: \<open>mapping ? JSON.parse(mapping) : null\<close>. \<open>Inr None\<close> is \<open>null\<close>;
  \<open>Inl SyntaxError\<close> is the exception of \<open>JSON.parse\<close>, which the function does not catch.
\<close>

definition parseCalendarToken :: "runtime \<Rightarrow> string \<Rightarrow> world \<Rightarrow> exn + json option" where
  "parseCalendarToken rt token w =
     (case kv w (tokenKey token) of
        None \<Rightarrow> Inr None
      | Some mapping \<Rightarrow>
          if mapping = [] then Inr None
          else (case json_parse rt mapping of None \<Rightarrow> Inl SyntaxError | Some j \<Rightarrow> Inr (Some j)))"

section \<open>Event titles\<close>

text \<open>
  The object built from an item's \<open>data\<close> array by
  \<open>event.data.forEach(d => { eventData[d.name] = d.value })\<close>: a later field of the same
  name overwrites an earlier one, and a name that is not set reads as \<open>undefined\<close>.
\<close>

type_synonym eventData = "string \<Rightarrow> jsval"

definition eventObject :: "field list \<Rightarrow> eventData" where
  "eventObject fs = fold (\<lambda>d obj. obj(fst d := snd d)) fs (\<lambda>n. JUndefined)"

text \<open>
  The substitution of \<open>generateEventTitleSync\<close> for an event without an opponent: when
  both names are known, every occurrence of the upstream team name in the title is replaced
  by the custom name. Calling \<open>replace\<close> on a title or a team name that is not a string
  is a \<open>TypeError\<close>.
\<close>

definition substituteTeamName :: "jsval \<Rightarrow> jsval \<Rightarrow> jsval \<Rightarrow> exn + jsval" where
  "substituteTeamName originalTitle customTeamName actualTeamName =
     (if truthy actualTeamName \<and> truthy customTeamName then
        (case (originalTitle, actualTeamName) of
           (JStr title, JStr actual) \<Rightarrow>
             Inr (JStr (replace_regex_gi title actual (to_str customTeamName)))
         | _ \<Rightarrow> Inl TypeError)
      else Inr originalTitle)"

text \<open>\<open>generateEventTitleSync\<close>\<close>

definition generateEventTitleSync :: "eventData \<Rightarrow> jsval \<Rightarrow> jsval \<Rightarrow> bool \<Rightarrow> exn + jsval" where
  "generateEventTitleSync event customTeamName actualTeamName removeOpponentNames =
     (let teamName = js_or (js_or customTeamName actualTeamName) (JStr ''Team'');
          originalTitle =
            js_or (js_or (js_or (event ''formatted_title_for_multi_team'')
                                (event ''formatted_title''))
                         (event ''name''))
                  (JStr ''Untitled Event'');
          isGame = (event ''game_type'' = JStr ''Game'' \<or> truthy (event ''opponent_name''))
      in if isGame \<and> truthy (event ''opponent_name'') then
           (if removeOpponentNames then Inr (JStr (to_str teamName @ '': Game''))
            else Inr (JStr (to_str teamName @ '' vs. '' @ to_str (event ''opponent_name''))))
         else if isGame then substituteTeamName originalTitle customTeamName actualTeamName
         else substituteTeamName originalTitle customTeamName actualTeamName)"

text \<open>\<open>generateEventTitle\<close>: the two preferences are read from the store.\<close>

definition generateEventTitle ::
  "(string \<rightharpoonup> string) \<Rightarrow> eventData \<Rightarrow> jsval \<Rightarrow> jsval \<Rightarrow> exn + jsval" where
  "generateEventTitle store eventData teamId actualTeamName =
     (let customName = store (''custom_team_name_'' @ to_str teamId);
          removeOpponentNames = store (''remove_opponent_names_'' @ to_str teamId)
      in generateEventTitleSync eventData (kv_value customName) actualTeamName
           (removeOpponentNames = Some ''true''))"

text \<open>
  The title of an event in the loop of \<open>serveCalendar\<close>: games go through
  \<open>generateEventTitle\<close>; the other events are titled in place. Calling \<open>includes\<close> on a
  title that is not a string is a \<open>TypeError\<close>.
\<close>

definition customTitleOf ::
  "(string \<rightharpoonup> string) \<Rightarrow> eventData \<Rightarrow> jsval \<Rightarrow> jsval \<Rightarrow> exn + jsval" where
  "customTitleOf store eventData teamId actualTeamName =
     (let customTeamName = kv_value (store (''custom_team_name_'' @ to_str teamId))
      in if truthy (eventData ''is_game'') then
           generateEventTitle store eventData teamId actualTeamName
         else if truthy (eventData ''formatted_title'') then
           Inr (JStr (to_str (js_or (js_or customTeamName actualTeamName) (JStr ''Team''))
                      @ '': '' @ to_str (eventData ''formatted_title'')))
         else if truthy (eventData ''formatted_title_for_multi_team'') then
           (if truthy actualTeamName \<and> truthy customTeamName then
              (case eventData ''formatted_title_for_multi_team'' of
                 JStr title \<Rightarrow>
                   if str_includes title (to_str actualTeamName)
                   then Inr (JStr (replace_string title (to_str actualTeamName)
                                     (to_str customTeamName)))
                   else Inr (JStr title)
               | _ \<Rightarrow> Inl TypeError)
            else Inr (eventData ''formatted_title_for_multi_team''))
         else Inr (js_or (js_or (eventData ''label'') (eventData ''name'')) (JStr ''Event'')))"

section \<open>Event descriptions\<close>

text \<open>The parts of \<open>generateEventDescription\<close>, in the order it appends them.\<close>

definition descTitleLine :: "eventData \<Rightarrow> string" where
  "descTitleLine event =
     (if truthy (event ''is_game'') \<and> truthy (event ''opponent_name'') then
        (if event ''game_type'' = JStr ''Home''
         then ''Home vs. '' @ to_str (event ''opponent_name'') @ esc_n
         else if event ''game_type'' = JStr ''Away''
         then ''Away at '' @ to_str (event ''opponent_name'') @ esc_n
         else to_str (js_or (event ''label'') (JStr ''TBD'')) @ '' vs. ''
                @ to_str (event ''opponent_name'') @ esc_n)
      else [])"

definition descUniform :: "eventData \<Rightarrow> string" where
  "descUniform event =
     (if truthy (event ''uniform'') then ''Uniform: '' @ to_str (event ''uniform'') @ esc_n
      else [])"

definition descLocation :: "eventData \<Rightarrow> string" where
  "descLocation event =
     (if truthy (event ''location_name'') then
        esc_n @ to_str (event ''location_name'')
        @ (if truthy (event ''additional_location_details'')
              \<and> event ''additional_location_details'' \<noteq> JStr ''TBD''
           then esc_n @ to_str (event ''additional_location_details'')
           else [])
        @ esc_n
      else [])"

text \<open>
  The arrival line; the time zone option is set when the event names one. The separator is
  the middle dot, character \<open>0xB7\<close>.
\<close>

definition descArrival :: "runtime \<Rightarrow> eventData \<Rightarrow> exn + string" where
  "descArrival rt event =
     (if truthy (event ''is_game'') \<and> truthy (event ''arrival_date'')
         \<and> truthy (event ''minutes_to_arrive_early'') then
        (case toLocaleTimeString rt (newDate rt (event ''arrival_date''))
                (if truthy (event ''time_zone_iana_name'')
                 then Some (to_str (event ''time_zone_iana_name'')) else None) of
           None \<Rightarrow> Inl RangeError
         | Some arrivalTime \<Rightarrow>
             Inr (''Arrival: '' @ arrivalTime @ [CHR '' '', CHR 0xB7, CHR '' '']
                  @ to_str (event ''minutes_to_arrive_early'') @ '' min. early'' @ esc_n))
      else Inr [])"

definition descNotes :: "eventData \<Rightarrow> string" where
  "descNotes event =
     (if truthy (event ''notes'') then esc_n @ to_str (event ''notes'') @ esc_n else [])"

definition generateEventDescription :: "runtime \<Rightarrow> eventData \<Rightarrow> exn + string" where
  "generateEventDescription rt event =
     (case descArrival rt event of
        Inl ex \<Rightarrow> Inl ex
      | Inr arrival \<Rightarrow>
          Inr (descTitleLine event @ descUniform event @ descLocation event @ arrival
               @ descNotes event))"

text \<open>
  The escaping \<open>generateEventFromTemplate\<close> applies to the description:
  \<open>description.replace(/\n/g, '\\n').replace(/,/g, '\\,')\<close>.
\<close>

definition escapeDescription :: "string \<Rightarrow> string" where
  "escapeDescription description = escapeCommas (escapeNewlines description)"

section \<open>Event blocks\<close>

fun join :: "string \<Rightarrow> string list \<Rightarrow> string" where
  "join sep [] = []"
| "join sep [x] = x"
| "join sep (x # y # ys) = x @ sep @ join sep (y # ys)"

definition addressParts :: "eventData \<Rightarrow> jsval list" where
  "addressParts location =
     filter truthy
       [location ''address'', location ''city'', location ''state'', location ''postal_code'']"

text \<open>
  The text of the location line before escaping: the location name and, when the event has
  a location id and the lookup gives an address, the address after an escaped line break.
  Every exception of the lookup is caught.
\<close>

definition locationText :: "env \<Rightarrow> eventData \<Rightarrow> world \<Rightarrow> jsval \<times> world" where
  "locationText e eventData w =
     (if truthy (eventData ''location_id'') then
        (case fetchTeamSnapData e (''/locations/'' @ to_str (eventData ''location_id'')) w of
           (Inl ex, w1) \<Rightarrow> (eventData ''location_name'', w1)
         | (Inr None, w1) \<Rightarrow> (eventData ''location_name'', w1)
         | (Inr (Some []), w1) \<Rightarrow> (eventData ''location_name'', w1)
         | (Inr (Some (None # others)), w1) \<Rightarrow> (eventData ''location_name'', w1)
         | (Inr (Some (Some fs # others)), w1) \<Rightarrow>
             (if addressParts (eventObject fs) \<noteq> []
              then (JStr (to_str (eventData ''location_name'') @ esc_n
                          @ join '' '' (map to_str (addressParts (eventObject fs)))), w1)
              else (eventData ''location_name'', w1)))
      else (eventData ''location_name'', w))"

text \<open>The end of an event block: the link, the modification time and the time stamp.\<close>

definition finishEvent ::
  "runtime \<Rightarrow> env \<Rightarrow> jsval \<Rightarrow> eventData \<Rightarrow> date \<Rightarrow> string \<Rightarrow> world \<Rightarrow> (exn + string) \<times> world" where
  "finishEvent rt e teamId eventData updatedAt eventBlock w =
     (case formatDate rt updatedAt of
        Inl ex \<Rightarrow> (Inl ex, w)
      | Inr modified \<Rightarrow>
          (case date_now e w of
             (now, w1) \<Rightarrow>
               (case formatDate rt (timeClip (Some now)) of
                  Inl ex \<Rightarrow> (Inl ex, w1)
                | Inr stamp \<Rightarrow>
                    (Inr (eventBlock
                          @ ''URL:https://go.teamsnap.com/'' @ to_str teamId
                          @ ''/schedule/view_event/'' @ to_str (eventData ''id'') @ crlf
                          @ ''LAST-MODIFIED:'' @ modified @ crlf
                          @ ''DTSTAMP:'' @ stamp @ crlf
                          @ ''END:VEVENT'' @ crlf), w1))))"

text \<open>
  \<open>generateEventFromTemplate\<close>. Formatting an invalid date is a \<open>RangeError\<close>; calling
  \<open>replace\<close> on a title or a location text that is not a string is a \<open>TypeError\<close>.
\<close>

definition generateEventFromTemplate ::
  "runtime \<Rightarrow> env \<Rightarrow> jsval \<Rightarrow> date \<Rightarrow> date \<Rightarrow> eventData \<Rightarrow> jsval \<Rightarrow> world
     \<Rightarrow> (exn + string) \<times> world" where
  "generateEventFromTemplate rt e teamId startDate endDate eventData customTitle w =
     (case generateEventDescription rt eventData of
        Inl ex \<Rightarrow> (Inl ex, w)
      | Inr desc \<Rightarrow>
          (case (if truthy (eventData ''updated_at'')
                 then (newDate rt (eventData ''updated_at''), w)
                 else (case date_now e w of (now, w') \<Rightarrow> (timeClip (Some now), w'))) of
             (updatedAt, w1) \<Rightarrow>
               (case (formatDate rt startDate, formatDate rt endDate, customTitle) of
                  (Inl ex, _, _) \<Rightarrow> (Inl ex, w1)
                | (Inr dtstart, Inl ex, _) \<Rightarrow> (Inl ex, w1)
                | (Inr dtstart, Inr dtend, JStr title) \<Rightarrow>
                    (let eventBlock =
                           ''BEGIN:VEVENT'' @ crlf
                           @ ''UID:teamsnap-'' @ to_str (eventData ''id'') @ ''@teamsnap.com'' @ crlf
                           @ ''DTSTART:'' @ dtstart @ crlf
                           @ ''DTEND:'' @ dtend @ crlf
                           @ ''SUMMARY:'' @ escapeCommas title @ crlf
                           @ (if escapeDescription desc \<noteq> []
                              then ''DESCRIPTION:'' @ escapeDescription desc @ crlf else [])
                     in if truthy (eventData ''location_name'') then
                          (case locationText e eventData w1 of
                             (JStr loc, w2) \<Rightarrow>
                               finishEvent rt e teamId eventData updatedAt
                                 (eventBlock @ ''LOCATION:'' @ escapeCommas loc @ crlf) w2
                           | (_, w2) \<Rightarrow> (Inl TypeError, w2))
                        else finishEvent rt e teamId eventData updatedAt eventBlock w1)
                | (Inr dtstart, Inr dtend, _) \<Rightarrow> (Inl TypeError, w1))))"

text \<open>
  One round of the loop over the events. An item without a \<open>data\<close> array is a
  \<open>TypeError\<close>; an event without a start is skipped; the end defaults to two hours after
  the start.
\<close>

definition renderEvent ::
  "runtime \<Rightarrow> env \<Rightarrow> jsval \<Rightarrow> jsval \<Rightarrow> item \<Rightarrow> world \<Rightarrow> (exn + string) \<times> world" where
  "renderEvent rt e teamId actualTeamName ev w =
     (case ev of
        None \<Rightarrow> (Inl TypeError, w)
      | Some fs \<Rightarrow>
          (let eventData = eventObject fs;
               startTime = eventData ''start_date'';
               endTime = eventData ''end_date''
           in if \<not> truthy startTime then (Inr [], w)
              else
                (let startDate = newDate rt startTime;
                     endDate = (if truthy endTime then newDate rt endTime
                                else timeClip (map_option (\<lambda>t. t + 2 * 60 * 60 * 1000) startDate))
                 in case customTitleOf (kv w) eventData teamId actualTeamName of
                      Inl ex \<Rightarrow> (Inl ex, w)
                    | Inr customTitle \<Rightarrow>
                        generateEventFromTemplate rt e teamId startDate endDate eventData
                          customTitle w)))"

fun renderEvents ::
  "runtime \<Rightarrow> env \<Rightarrow> jsval \<Rightarrow> jsval \<Rightarrow> item list \<Rightarrow> world \<Rightarrow> (exn + string) \<times> world" where
  "renderEvents rt e teamId actualTeamName [] w = (Inr [], w)"
| "renderEvents rt e teamId actualTeamName (ev # evs) w =
     (case renderEvent rt e teamId actualTeamName ev w of
        (Inl ex, w1) \<Rightarrow> (Inl ex, w1)
      | (Inr eventBlock, w1) \<Rightarrow>
          (case renderEvents rt e teamId actualTeamName evs w1 of
             (Inl ex, w2) \<Rightarrow> (Inl ex, w2)
           | (Inr blocks, w2) \<Rightarrow> (Inr (eventBlock @ blocks), w2)))"

text \<open>The head of the calendar document, with the calendar name line when there is a name.\<close>

definition calendarHead :: "jsval \<Rightarrow> string" where
  "calendarHead calendarName =
     ''BEGIN:VCALENDAR'' @ crlf
     @ ''VERSION:2.0'' @ crlf
     @ ''PRODID:-//TeamSnap Custom Calendar//TeamSnap Events//EN'' @ crlf
     @ ''CALSCALE:GREGORIAN'' @ crlf
     @ ''METHOD:PUBLISH'' @ crlf
     @ (if truthy calendarName then ''X-WR-CALNAME:'' @ to_str calendarName @ crlf else [])"

definition renderCalendar ::
  "runtime \<Rightarrow> env \<Rightarrow> jsval \<Rightarrow> jsval \<Rightarrow> item list \<Rightarrow> world \<Rightarrow> (exn + string) \<times> world" where
  "renderCalendar rt e teamId actualTeamName events w =
     (let customTeamName = kv_value (kv w (''custom_team_name_'' @ to_str teamId));
          calendarName = js_or (js_or customTeamName actualTeamName) (JStr [])
      in case renderEvents rt e teamId actualTeamName events w of
           (Inl ex, w1) \<Rightarrow> (Inl ex, w1)
         | (Inr blocks, w1) \<Rightarrow>
             (Inr (calendarHead calendarName @ blocks @ ''END:VCALENDAR'' @ crlf), w1))"

section \<open>Serving a feed\<close>

text \<open>
  A feed request, as far as \<open>serveCalendar\<close> reads it: the query parameters \<open>cache\<close>,
  \<open>refresh\<close> and \<open>format\<close>, and the two conditional headers.
\<close>

record request =
  param_cache :: "string option"
  param_refresh :: "string option"
  param_format :: "string option"
  if_modified_since :: "string option"
  if_none_match :: "string option"

text \<open>A response: status, body (\<open>None\<close> for no body) and the headers the worker sets.\<close>

record response =
  status :: nat
  body :: "string option"
  headers :: "(string \<times> string) list"

definition textResponse :: "nat \<Rightarrow> string \<Rightarrow> response" where
  "textResponse st msg = \<lparr>status = st, body = Some msg, headers = []\<rparr>"

definition cacheKey :: "string \<Rightarrow> string" where
  "cacheKey calendarId = ''calendar_'' @ calendarId"

definition lastUpdateKey :: "string \<Rightarrow> string" where
  "lastUpdateKey calendarId = cacheKey calendarId @ ''_lastupdate''"

text \<open>The quoted entity tag \<open>"{calendarId}-{stamp}"\<close>.\<close>

definition etagOf :: "string \<Rightarrow> string \<Rightarrow> string" where
  "etagOf calendarId stamp = [dquote] @ calendarId @ ''-'' @ stamp @ [dquote]"

definition notModified :: "runtime \<Rightarrow> string \<Rightarrow> string \<Rightarrow> response" where
  "notModified rt calendarId cachedLastUpdate =
     \<lparr>status = 304, body = None,
      headers = [(''Last-Modified'', utcString rt (timeClip (parseInt cachedLastUpdate))),
                 (''ETag'', etagOf calendarId cachedLastUpdate),
                 (''Cache-Control'', ''public, max-age=3600'')]\<rparr>"

text \<open>
  The conditional-request step: with a cached pair, a request whose \<open>If-Modified-Since\<close>
  is not before the cached time, or whose \<open>If-None-Match\<close> is the cached entity tag, is
  answered with 304. \<open>None\<close> when the step does not answer.
\<close>

definition conditionalResponse ::
  "runtime \<Rightarrow> request \<Rightarrow> string \<Rightarrow> string option \<Rightarrow> string option \<Rightarrow> response option" where
  "conditionalResponse rt req calendarId cachedIcs cachedLastUpdate =
     (case (cachedIcs, cachedLastUpdate) of
        (Some ics, Some lastUpdate) \<Rightarrow>
          if ics \<noteq> [] \<and> lastUpdate \<noteq> [] then
            (if (case if_modified_since req of
                   None \<Rightarrow> False
                 | Some ifModifiedSince \<Rightarrow>
                     ifModifiedSince \<noteq> []
                     \<and> date_le (timeClip (parseInt lastUpdate))
                          (timeClip (date_parse rt ifModifiedSince)))
             then Some (notModified rt calendarId lastUpdate)
             else if (case if_none_match req of
                        None \<Rightarrow> False
                      | Some ifNoneMatch \<Rightarrow>
                          ifNoneMatch \<noteq> [] \<and> ifNoneMatch = etagOf calendarId lastUpdate)
             then Some (notModified rt calendarId lastUpdate)
             else None)
          else None
      | _ \<Rightarrow> None)"

text \<open>The access token of the request: the stored one, or a refreshed one, or a 401.\<close>

definition acquireAccessToken :: "env \<Rightarrow> world \<Rightarrow> (response + string) \<times> world" where
  "acquireAccessToken e w =
     (case kv w ''oauth_access_token'' of
        None \<Rightarrow>
          (case refreshAccessToken e w of
             (None, w1) \<Rightarrow>
               (Inl (textResponse 401 ''Calendar access expired. Please re-authenticate.''), w1)
           | (Some newTokens, w1) \<Rightarrow> (Inr (access_token newTokens), w1))
      | Some accessToken \<Rightarrow>
          if accessToken \<noteq> [] then (Inr accessToken, w)
          else
            (case refreshAccessToken e w of
               (None, w1) \<Rightarrow>
                 (Inl (textResponse 401 ''Calendar access expired. Please re-authenticate.''), w1)
             | (Some newTokens, w1) \<Rightarrow> (Inr (access_token newTokens), w1)))"

text \<open>
  The upstream team name, \<open>null\<close> when it cannot be had: every exception of the lookup
  (a failed request, an item without \<open>data\<close>, no field \<open>name\<close>) is caught.
\<close>

definition fetchActualTeamName :: "env \<Rightarrow> jsval \<Rightarrow> world \<Rightarrow> jsval \<times> world" where
  "fetchActualTeamName e teamId w =
     (case fetchTeamSnapData e (''/teams/'' @ to_str teamId) w of
        (Inl ex, w1) \<Rightarrow> (JNull, w1)
      | (Inr None, w1) \<Rightarrow> (JNull, w1)
      | (Inr (Some []), w1) \<Rightarrow> (JNull, w1)
      | (Inr (Some (None # others)), w1) \<Rightarrow> (JNull, w1)
      | (Inr (Some (Some fs # others)), w1) \<Rightarrow>
          (case find (\<lambda>d. fst d = ''name'') fs of
             None \<Rightarrow> (JNull, w1)
           | Some d \<Rightarrow> (snd d, w1)))"

definition eventsUrl :: "jsval \<Rightarrow> string" where
  "eventsUrl teamId = TEAMSNAP_API_URL @ ''/events/search?team_id='' @ to_str teamId"

text \<open>What the events request gives: the items, or the 500 response of a failure.\<close>

definition eventsResult :: "env \<Rightarrow> jsval \<Rightarrow> string \<Rightarrow> response + item list" where
  "eventsResult e teamId accessToken =
     (case api e (eventsUrl teamId) accessToken of
        NetworkError \<Rightarrow> Inl (textResponse 500 ''Failed to fetch team events'')
      | Response st errorText js \<Rightarrow>
          if \<not> ok st then
            Inl (textResponse 500
                   (''Error fetching team events: '' @ number_to_string (int st) @ '' '' @ errorText))
          else
            (case js of
               None \<Rightarrow> Inl (textResponse 500 ''Failed to fetch team events'')
             | Some None \<Rightarrow> Inr []
             | Some (Some items) \<Rightarrow> Inr items))"

definition fetchEvents ::
  "env \<Rightarrow> jsval \<Rightarrow> string \<Rightarrow> world \<Rightarrow> (response + item list) \<times> world" where
  "fetchEvents e teamId accessToken w =
     (eventsResult e teamId accessToken, snd (fetch_api e (eventsUrl teamId) accessToken w))"

text \<open>
  The watermark: the greatest \<open>updated_at\<close> of the events as epoch milliseconds, 0 when no
  event has a usable one.
\<close>

definition latestEventUpdate :: "runtime \<Rightarrow> item list \<Rightarrow> int" where
  "latestEventUpdate rt events =
     fold (\<lambda>ev latest.
             if truthy (find_value ev ''updated_at'') then
               (case newDate rt (find_value ev ''updated_at'') of
                  None \<Rightarrow> latest
                | Some updateTime \<Rightarrow> if updateTime > latest then updateTime else latest)
             else latest)
       events 0"

text \<open>
  The cached document as a full response, when there is a cached pair and the watermark of
  the events is not after the cached one. \<open>None\<close> when the step does not answer.
\<close>

definition cachedResponse ::
  "runtime \<Rightarrow> string \<Rightarrow> jsval \<Rightarrow> jsval \<Rightarrow> string option \<Rightarrow> string option \<Rightarrow> int
     \<Rightarrow> response option" where
  "cachedResponse rt calendarId teamId filterType cachedIcs cachedLastUpdate latest =
     (case (cachedIcs, cachedLastUpdate) of
        (Some ics, Some lastUpdate) \<Rightarrow>
          if ics \<noteq> [] \<and> lastUpdate \<noteq> []
             \<and> (case parseInt lastUpdate of None \<Rightarrow> False | Some cached \<Rightarrow> latest \<le> cached)
          then Some \<lparr>status = 200, body = Some ics,
                 headers =
                   [(''Content-Type'', ''text/calendar; charset=utf-8''),
                    (''Content-Disposition'',
                       ''attachment; filename='' @ [dquote] @ to_str teamId @ ''_''
                       @ to_str filterType @ ''.ics'' @ [dquote]),
                    (''Last-Modified'', utcString rt (timeClip (parseInt lastUpdate))),
                    (''ETag'', etagOf calendarId lastUpdate),
                    (''Cache-Control'', ''public, max-age=3600'')]\<rparr>
          else None
      | _ \<Rightarrow> None)"

text \<open>\<open>latestEventUpdate || Date.now()\<close>: the clock is read when the watermark is 0.\<close>

definition watermarkOrNow :: "env \<Rightarrow> int \<Rightarrow> world \<Rightarrow> int \<times> world" where
  "watermarkOrNow e latest w = (if latest \<noteq> 0 then (latest, w) else date_now e w)"

text \<open>
  The content headers of a new document: plain text shown in place when the \<open>.txt\<close>
  route or \<open>format=text\<close> asks for it, a calendar attachment otherwise.
\<close>

definition contentHeaders :: "request \<Rightarrow> bool \<Rightarrow> jsval \<Rightarrow> jsval \<Rightarrow> (string \<times> string) list" where
  "contentHeaders req forceText teamId filterType =
     (if forceText \<or> param_format req = Some ''text''
      then [(''Content-Type'', ''text/plain; charset=utf-8''),
            (''Content-Disposition'', ''inline''),
            (''X-Content-Type-Options'', ''nosniff'')]
      else [(''Content-Type'', ''text/calendar; charset=utf-8''),
            (''Content-Disposition'',
               ''attachment; filename='' @ [dquote] @ to_str teamId @ ''_''
               @ to_str filterType @ ''.ics'' @ [dquote])])"

text \<open>
  The end of \<open>serveCalendar\<close>: the new document is cached with its watermark unless the
  watermark is 0, and sent with its headers.
\<close>

definition respondFresh ::
  "runtime \<Rightarrow> env \<Rightarrow> request \<Rightarrow> bool \<Rightarrow> string \<Rightarrow> jsval \<Rightarrow> jsval \<Rightarrow> int \<Rightarrow> string \<Rightarrow> world
     \<Rightarrow> response \<times> world" where
  "respondFresh rt e req forceText calendarId teamId filterType latest icsContent w =
     (let w1 = (if latest > 0
                then kv_put (lastUpdateKey calendarId) (number_to_string latest) (Some 3600)
                       (kv_put (cacheKey calendarId) icsContent (Some 3600) w)
                else w);
          (modifiedAt, w2) = watermarkOrNow e latest w1;
          (stamp, w3) = watermarkOrNow e latest w2
      in (\<lparr>status = 200, body = Some icsContent,
           headers =
             [(''Last-Modified'', utcString rt (timeClip (Some modifiedAt))),
              (''ETag'', etagOf calendarId (number_to_string stamp)),
              (''Cache-Control'', ''public, max-age=3600'')]
             @ contentHeaders req forceText teamId filterType\<rparr>,
          w3))"

text \<open>
  \<open>serveCalendar\<close> from the read of the access token on: the upstream requests, the
  filters, the watermark, and either the cached document or a new one.
\<close>

definition serveFromUpstream ::
  "runtime \<Rightarrow> env \<Rightarrow> request \<Rightarrow> string \<Rightarrow> bool \<Rightarrow> jsval \<Rightarrow> jsval \<Rightarrow> string option
     \<Rightarrow> string option \<Rightarrow> world \<Rightarrow> (exn + response) \<times> world" where
  "serveFromUpstream rt e req calendarId forceText teamId filterType cachedIcs cachedLastUpdate w =
     (case acquireAccessToken e w of
        (Inl unauthorized, w1) \<Rightarrow> (Inr unauthorized, w1)
      | (Inr accessToken, w1) \<Rightarrow>
          (case fetchActualTeamName e teamId w1 of
             (actualTeamName, w2) \<Rightarrow>
               (case fetchEvents e teamId accessToken w2 of
                  (Inl failure, w3) \<Rightarrow> (Inr failure, w3)
                | (Inr items, w3) \<Rightarrow>
                    (let events = applyFilter filterType (dropCancelled items);
                         latest = latestEventUpdate rt events
                     in case cachedResponse rt calendarId teamId filterType cachedIcs
                               cachedLastUpdate latest of
                          Some cached \<Rightarrow> (Inr cached, w3)
                        | None \<Rightarrow>
                            (case renderCalendar rt e teamId actualTeamName events w3 of
                               (Inl ex, w4) \<Rightarrow> (Inl ex, w4)
                             | (Inr icsContent, w4) \<Rightarrow>
                                 (case respondFresh rt e req forceText calendarId teamId
                                         filterType latest icsContent w4 of
                                    (fresh, w5) \<Rightarrow> (Inr fresh, w5)))))))"

text \<open>The two deletes of \<open>refresh=true\<close>.\<close>

definition clearCache :: "string \<Rightarrow> world \<Rightarrow> world" where
  "clearCache calendarId w = kv_delete (lastUpdateKey calendarId) (kv_delete (cacheKey calendarId) w)"

text \<open>
  \<open>serveCalendar\<close>: the token is resolved (400 when it resolves to nothing), the cached
  pair is read unless \<open>cache=off\<close> or \<open>refresh=true\<close> is given, \<open>refresh=true\<close> deletes
  the cached pair, and the conditional-request step comes before every upstream request.
  An exception that nothing catches is the \<open>Inl\<close> result.
\<close>

definition serveCalendar ::
  "runtime \<Rightarrow> env \<Rightarrow> request \<Rightarrow> string \<Rightarrow> bool \<Rightarrow> world \<Rightarrow> (exn + response) \<times> world" where
  "serveCalendar rt e req calendarId forceText w =
     (case parseCalendarToken rt calendarId w of
        Inl ex \<Rightarrow> (Inl ex, w)
      | Inr None \<Rightarrow> (Inr (textResponse 400 ''Invalid or expired calendar token.''), w)
      | Inr (Some tokenData) \<Rightarrow>
          if \<not> truthy_json tokenData
          then (Inr (textResponse 400 ''Invalid or expired calendar token.''), w)
          else
            (let teamId = get_member tokenData ''teamId'';
                 filterType = get_member tokenData ''filterType'';
                 cacheOff = (param_cache req = Some ''off'');
                 forceRefresh = (param_refresh req = Some ''true'');
                 cachedIcs = (if cacheOff \<or> forceRefresh then None
                              else kv w (cacheKey calendarId));
                 cachedLastUpdate = (if cacheOff \<or> forceRefresh then None
                                     else kv w (lastUpdateKey calendarId));
                 w1 = (if forceRefresh then clearCache calendarId w else w)
             in case conditionalResponse rt req calendarId cachedIcs cachedLastUpdate of
                  Some unchanged \<Rightarrow> (Inr unchanged, w1)
                | None \<Rightarrow>
                    serveFromUpstream rt e req calendarId forceText teamId filterType
                      cachedIcs cachedLastUpdate w1))"

section \<open>Properties of texts, times and effects\<close>


fun commas_escaped_after :: "char \<Rightarrow> string \<Rightarrow> bool" where
  "commas_escaped_after prev [] = True"
| "commas_escaped_after prev (c # cs) =
     ((if c = CHR '','' then prev = backslash else True) \<and> commas_escaped_after c cs)"

definition commas_escaped :: "string \<Rightarrow> bool" where
  "commas_escaped s = commas_escaped_after (CHR '' '') s"


text \<open>A time value a \<open>Date\<close> can hold.\<close>

definition valid_time :: "int \<Rightarrow> bool" where
  "valid_time t = (\<bar>t\<bar> \<le> 8640000000000000)"

text \<open>A request to the token endpoint fails: no response, or a response that is not ok.\<close>

definition request_failed :: "'a http \<Rightarrow> bool" where
  "request_failed r = (case r of NetworkError \<Rightarrow> True | Response st txt js \<Rightarrow> \<not> ok st)"

text \<open>The writes of the cached pair of a calendar among the effects.\<close>

definition isCacheWrite :: "string \<Rightarrow> effect \<Rightarrow> bool" where
  "isCacheWrite calendarId ef =
     (case ef of
        KvPut k v ttl \<Rightarrow> k = cacheKey calendarId \<or> k = lastUpdateKey calendarId
      | KvDelete k \<Rightarrow> False
      | Fetch url \<Rightarrow> False)"

definition cacheWrites :: "string \<Rightarrow> world \<Rightarrow> effect list" where
  "cacheWrites calendarId w = filter (isCacheWrite calendarId) (log w)"

definition isDelete :: "effect \<Rightarrow> bool" where
  "isDelete ef = (case ef of KvPut k v ttl \<Rightarrow> False | KvDelete k \<Rightarrow> True | Fetch url \<Rightarrow> False)"

text \<open>
  The keys of the OAuth session, and the steps that touch nothing else: a world extends
  another when the store differs on those keys at most, the only effects added are upstream
  requests and writes of those keys, and the clock has not gone back.
\<close>

definition oauthKeys :: "string set" where
  "oauthKeys = {''oauth_access_token'', ''oauth_refresh_token'', ''oauth_expires_at''}"

definition benign :: "effect \<Rightarrow> bool" where
  "benign ef =
     (case ef of KvPut k v ttl \<Rightarrow> k \<in> oauthKeys | KvDelete k \<Rightarrow> False | Fetch url \<Rightarrow> True)"

definition extends :: "world \<Rightarrow> world \<Rightarrow> bool" where
  "extends w w' =
     ((\<forall>k. k \<notin> oauthKeys \<longrightarrow> kv w' k = kv w k)
      \<and> (\<exists>more. log w' = log w @ more \<and> list_all benign more)
      \<and> tick w \<le> tick w')"

text \<open>Reading back a printed integer.\<close>

definition read_int :: "string \<Rightarrow> int" where
  "read_int s =
     (case s of
        [] \<Rightarrow> 0
      | c # cs \<Rightarrow> if c = CHR ''-'' then - int (digits_value 10 cs) else int (digits_value 10 s))"


section \<open>A runtime and an upstream service for the examples\<close>

text \<open>
  The examples run on a runtime that is given by tables: on the texts, times and digests of
  the examples it returns what the JavaScript runtime returns for them (the digests are the
  SHA-256 digests, the dates are the dates), and elsewhere a fixed value. The upstream service
  of the examples knows one team, 42 named "Leafs", answers only to the bearer token
  \<open>token-1\<close>, and refuses every refresh; its clock advances by a millisecond per reading.
\<close>

definition quoted :: "string \<Rightarrow> string" where
  "quoted s = [dquote] @ s @ [dquote]"

text \<open>The JSON text of a token mapping with a numeric team id.\<close>

definition mappingJson :: "int \<Rightarrow> string \<Rightarrow> string" where
  "mappingJson teamId filterType =
     ''{'' @ quoted ''teamId'' @ '':'' @ number_to_string teamId @ '',''
     @ quoted ''filterType'' @ '':'' @ quoted filterType @ ''}''"

definition exampleStringify :: "json \<Rightarrow> string" where
  "exampleStringify j =
     (case j of
        JObject [(k1, JNum n), (k2, JStr f)] \<Rightarrow>
          if k1 = ''teamId'' \<and> k2 = ''filterType'' then mappingJson n f else ''{}''
      | _ \<Rightarrow> ''null'')"

definition exampleParse :: "string \<Rightarrow> json option" where
  "exampleParse s =
     (if s = mappingJson 42 ''all'' then Some (mappingObject (JNum 42) ''all'')
      else if s = mappingJson 42 ''games'' then Some (mappingObject (JNum 42) ''games'')
      else if s = mappingJson 1 ''all'' then Some (mappingObject (JNum 1) ''all'')
      else if s = mappingJson 2 ''all'' then Some (mappingObject (JNum 2) ''all'')
      else if s = ''null'' then Some (JPrim JNull)
      else None)"

definition exampleDigest :: "string \<Rightarrow> string" where
  "exampleDigest s =
     (if s = ''Leafs:all:s3cret''
      then ''efb8e7c42a9a87af11c3e158d9f4dede24aead0a2c234c8c17bcb4d45a28051a''
      else if s = ''Leafs:games:s3cret''
      then ''25807ce11d5b30cd4040c3a88a64a30f6997923e6754fcf7039c11adbf44009a''
      else replicate 64 (CHR ''0''))"

definition exampleDateParse :: "string \<Rightarrow> int option" where
  "exampleDateParse s =
     map_of [(''1970-01-01T00:00:00.900Z'', 900),
             (''Thu, 01 Jan 1970 00:00:01 GMT'', 1000),
             (''2025-01-04T15:00:00Z'', 1736002800000),
             (''2025-01-04T14:20:00Z'', 1736000400000)] s"

definition exampleUTCString :: "int \<Rightarrow> string" where
  "exampleUTCString t =
     (if t = 1000 then ''Thu, 01 Jan 1970 00:00:01 GMT''
      else if 1700000000000 \<le> t \<and> t < 1700000001000 then ''Tue, 14 Nov 2023 22:13:20 GMT''
      else [])"

definition exampleISOString :: "int \<Rightarrow> string" where
  "exampleISOString t =
     (if t = 1736002800000 then ''2025-01-04T15:00:00.000Z''
      else if t = 1736010000000 then ''2025-01-04T17:00:00.000Z''
      else if 1700000000000 \<le> t \<and> t < 1700000000010
      then ''2023-11-14T22:13:20.00'' @ number_to_string (t - 1700000000000) @ ''Z''
      else [])"

definition exampleLocaleTime :: "date \<Rightarrow> string option \<Rightarrow> string option" where
  "exampleLocaleTime d tz =
     (if d = Some 1736000400000 \<and> tz = Some ''America/Toronto'' then Some ''9:20 AM''
      else if d = None then Some ''Invalid Date''
      else None)"

definition exampleRuntime :: runtime where
  "exampleRuntime =
     \<lparr>sha256_hex = exampleDigest, date_parse = exampleDateParse,
      toUTCString = exampleUTCString, toISOString = exampleISOString,
      toLocaleTimeString = exampleLocaleTime,
      json_parse = exampleParse, json_stringify = exampleStringify\<rparr>"

definition exampleApi :: "item list \<Rightarrow> string \<Rightarrow> string \<Rightarrow> api_doc http" where
  "exampleApi items url bearer =
     (if bearer \<noteq> ''token-1'' then Response 401 ''unauthorized'' None
      else if url = TEAMSNAP_API_URL @ ''/teams/42''
      then Response 200 [] (Some (Some [Some [(''id'', JNum 42), (''name'', JStr ''Leafs'')]]))
      else if url = eventsUrl (JNum 42) then Response 200 [] (Some (Some items))
      else Response 404 ''not found'' None)"

definition exampleEnv :: "item list \<Rightarrow> env" where
  "exampleEnv items =
     \<lparr>TEAMSNAP_CLIENT_ID = Some ''client'', TEAMSNAP_CLIENT_SECRET = Some ''s3cret'',
      api = exampleApi items,
      token_endpoint = (\<lambda>form. Response 400 ''invalid_grant'' None),
      clock = (\<lambda>n. 1700000000000 + int n)\<rparr>"

text \<open>The token of team "Leafs" for all events: the first 32 digits of its digest.\<close>

definition feedToken :: string where
  "feedToken = ''efb8e7c42a9a87af11c3e158d9f4dede''"

definition plainRequest :: request where
  "plainRequest =
     \<lparr>param_cache = None, param_refresh = None, param_format = None,
      if_modified_since = None, if_none_match = None\<rparr>"

text \<open>
  Stores, as lists of entries: the OAuth session with the mapping of the token, and the same
  with a cached pair of watermark 1000.
\<close>

definition sessionStore :: "(string \<times> string) list" where
  "sessionStore =
     [(''oauth_access_token'', ''token-1''),
      (''oauth_refresh_token'', ''refresh-1''),
      (tokenKey feedToken, mappingJson 42 ''all'')]"

definition worldOf :: "(string \<times> string) list \<Rightarrow> world" where
  "worldOf entries = \<lparr>kv = map_of entries, log = [], tick = 0\<rparr>"

definition cachedDocument :: string where
  "cachedDocument = ''BEGIN:VCALENDAR'' @ crlf @ ''END:VCALENDAR'' @ crlf"

definition cachedStore :: "(string \<times> string) list" where
  "cachedStore =
     [(cacheKey feedToken, cachedDocument), (lastUpdateKey feedToken, ''1000'')] @ sessionStore"

text \<open>
  Events: a practice without \<open>updated_at\<close>, a meeting updated at 900, an away game against
  the Jets (bare, and with all the fields the description reads), and an event that is not a
  game and has a multi-team title only.
\<close>

definition practice :: item where
  "practice =
     Some [(''id'', JNum 7), (''is_game'', JBool False),
           (''formatted_title'', JStr ''Practice''),
           (''start_date'', JStr ''2025-01-04T15:00:00Z''),
           (''location_name'', JStr ''Rink A'')]"

definition updatedEarlier :: item where
  "updatedEarlier =
     Some [(''id'', JNum 8), (''label'', JStr ''Meeting''),
           (''start_date'', JStr ''2025-01-04T15:00:00Z''),
           (''updated_at'', JStr ''1970-01-01T00:00:00.900Z'')]"



definition sharedIce :: "string \<Rightarrow> field list" where
  "sharedIce title =
     [(''id'', JNum 9), (''is_game'', JBool False),
      (''formatted_title_for_multi_team'', JStr title),
      (''start_date'', JStr ''2025-01-04T15:00:00Z'')]"

text \<open>
  The document \<open>serveCalendar\<close> renders for the practice, by its calendar name line and its
  summary line.
\<close>

definition practiceDocument :: "string \<Rightarrow> string \<Rightarrow> string" where
  "practiceDocument calendarName summary =
     concat (map (\<lambda>line. line @ crlf)
       [''BEGIN:VCALENDAR'',
        ''VERSION:2.0'',
        ''PRODID:-//TeamSnap Custom Calendar//TeamSnap Events//EN'',
        ''CALSCALE:GREGORIAN'',
        ''METHOD:PUBLISH'',
        ''X-WR-CALNAME:'' @ calendarName,
        ''BEGIN:VEVENT'',
        ''UID:teamsnap-7@teamsnap.com'',
        ''DTSTART:20250104T150000Z'',
        ''DTEND:20250104T170000Z'',
        ''SUMMARY:'' @ summary,
        ''DESCRIPTION:'' @ esc_n @ ''Rink A'' @ esc_n,
        ''LOCATION:Rink A'',
        ''URL:https://go.teamsnap.com/42/schedule/view_event/7'',
        ''LAST-MODIFIED:20231114T221320Z'',
        ''DTSTAMP:20231114T221320Z'',
        ''END:VEVENT'',
        ''END:VCALENDAR''])"

text \<open>The store with a custom team name that holds a comma.\<close>

definition namedStore :: "(string \<times> string) list" where
  "namedStore = (''custom_team_name_42'', ''Leafs, U12'') # sessionStore"


section \<open>The events of the filter scenario\<close>

definition eventA :: item where
  "eventA = Some [(''game_type'', JStr ''Game''), (''opponent_name'', JStr ''X'')]"

definition eventB :: item where
  "eventB = Some [(''is_game'', JBool False)]"

definition eventC :: "field list \<Rightarrow> item" where
  "eventC rest = Some ((''is_canceled'', JBool True) # rest)"

section \<open>Effects of the steps\<close>

text \<open>
  Every step of a feed request after the conditional-request step extends the world: it
  adds upstream requests and writes of the OAuth session keys only.
\<close>

lemma extends_refl: "extends w w"
  by (simp add: extends_def)

lemma extends_trans: "extends a b \<Longrightarrow> extends b c \<Longrightarrow> extends a c"
  unfolding extends_def by auto

lemma extends_put: "k \<in> oauthKeys \<Longrightarrow> extends w (kv_put k v ttl w)"
  by (auto simp: extends_def kv_put_def benign_def)

lemma extends_now: "date_now e w = (t, w') \<Longrightarrow> extends w w'"
  by (auto simp: extends_def date_now_def)

lemma extends_fetch_api: "fetch_api e url tok w = (r, w') \<Longrightarrow> extends w w'"
  by (auto simp: extends_def fetch_api_def benign_def)

lemma extends_fetch_token: "fetch_token e form w = (r, w') \<Longrightarrow> extends w w'"
  by (auto simp: extends_def fetch_token_def benign_def)

lemma extends_storeTokens: "extends w (storeTokens e td w)"
proof -
  let ?w1 = "kv_put ''oauth_access_token'' (access_token td) (Some (expires_in td)) w"
  let ?w2 = "if present (refresh_token td)
             then kv_put ''oauth_refresh_token''
                    (case refresh_token td of None \<Rightarrow> [] | Some r \<Rightarrow> r) None ?w1
             else ?w1"
  obtain now w3 where now: "date_now e ?w2 = (now, w3)" by (cases "date_now e ?w2")
  have 1: "extends w ?w1" by (rule extends_put) (simp add: oauthKeys_def)
  have 2: "extends ?w1 ?w2" by (simp add: extends_refl extends_put oauthKeys_def)
  have 3: "extends ?w2 w3" using now by (rule extends_now)
  have 4: "extends w3 (kv_put ''oauth_expires_at'' v None w3)" for v
    by (rule extends_put) (simp add: oauthKeys_def)
  have "storeTokens e td w
        = kv_put ''oauth_expires_at'' (number_to_string (now + expires_in td * 1000)) None w3"
    unfolding storeTokens_def Let_def using now by simp
  then show ?thesis
    using extends_trans[OF extends_trans[OF extends_trans[OF 1 2] 3] 4] by simp
qed

lemma extends_refresh: "refreshAccessToken e w = (r, w') \<Longrightarrow> extends w w'"
  unfolding refreshAccessToken_def
  by (auto simp: extends_refl split: option.splits http.splits prod.splits if_splits
        dest!: extends_fetch_token intro: extends_trans[OF _ extends_storeTokens])

lemma extends_fetchTeamSnapData: "fetchTeamSnapData e endpoint w = (r, w') \<Longrightarrow> extends w w'"
  unfolding fetchTeamSnapData_def Let_def
  by (auto simp: extends_refl split: option.splits http.splits prod.splits if_splits
        dest!: extends_fetch_api extends_refresh intro: extends_trans)







lemma extends_acquire: "acquireAccessToken e w = (r, w') \<Longrightarrow> extends w w'"
  unfolding acquireAccessToken_def
  by (auto simp: extends_refl split: option.splits if_splits prod.splits dest!: extends_refresh)

lemma extends_teamName: "fetchActualTeamName e teamId w = (r, w') \<Longrightarrow> extends w w'"
  unfolding fetchActualTeamName_def
  by (auto split: prod.splits sum.splits option.splits list.splits
        dest!: extends_fetchTeamSnapData)

lemma extends_fetchEvents: "fetchEvents e teamId tok w = (r, w') \<Longrightarrow> extends w w'"
  unfolding fetchEvents_def by (auto simp: extends_def fetch_api_def benign_def)

lemma cacheKey_not_oauth: "cacheKey c \<notin> oauthKeys" "lastUpdateKey c \<notin> oauthKeys"
  by (simp_all add: cacheKey_def lastUpdateKey_def oauthKeys_def)

lemma cacheWrites_extends: "extends w w' \<Longrightarrow> cacheWrites c w' = cacheWrites c w"
proof -
  assume "extends w w'"
  then obtain more where m: "log w' = log w @ more" "list_all benign more"
    by (auto simp: extends_def)
  have "filter (isCacheWrite c) more = []"
    using m(2) cacheKey_not_oauth[of c]
    by (auto simp: filter_empty_conv list_all_iff benign_def isCacheWrite_def split: effect.splits)
  then show ?thesis using m(1) by (simp add: cacheWrites_def)
qed



section \<open>Printed numbers\<close>

text \<open>A printed integer reads back as itself, so different stamps give different entity tags.\<close>

declare show_nat_acc.simps [simp del]

lemma show_nat_acc_append: "show_nat_acc n acc = show_nat_acc n [] @ acc"
proof (induction n arbitrary: acc rule: less_induct)
  case (less n)
  show ?case
  proof (cases "n < 10")
    case True
    then show ?thesis by (simp add: show_nat_acc.simps[of n])
  next
    case False
    then have lt: "n div 10 < n" by simp
    have "show_nat_acc n acc = show_nat_acc (n div 10) (digit_char (n mod 10) # acc)"
      using False by (simp add: show_nat_acc.simps[of n] Let_def)
    also have "\<dots> = show_nat_acc (n div 10) [] @ digit_char (n mod 10) # acc"
      by (rule less.IH[OF lt])
    also have "\<dots> = show_nat_acc (n div 10) [digit_char (n mod 10)] @ acc"
      using less.IH[OF lt, of "[digit_char (n mod 10)]"] by simp
    also have "show_nat_acc (n div 10) [digit_char (n mod 10)] = show_nat_acc n []"
      using False by (simp add: show_nat_acc.simps[of n] Let_def)
    finally show ?thesis .
  qed
qed

lemma digit_value_digit_char: "d < 10 \<Longrightarrow> digit_value (digit_char d) = Some d"
proof -
  assume "d < 10"
  then have "d \<in> {0, 1, 2, 3, 4, 5, 6, 7, 8, 9}" by auto
  then show ?thesis
    by (auto simp: digit_value_def digit_char_def)
qed

lemma digit_char_not_minus: "d < 10 \<Longrightarrow> digit_char d \<noteq> CHR ''-''"
proof -
  assume "d < 10"
  then have "d \<in> {0, 1, 2, 3, 4, 5, 6, 7, 8, 9}" by auto
  then show ?thesis
    by (auto simp: digit_char_def)
qed

lemma digits_value_snoc:
  "digits_value r (ds @ [c]) = digits_value r ds * r + (case digit_value c of None \<Rightarrow> 0 | Some d \<Rightarrow> d)"
  by (simp add: digits_value_def)

lemma digits_value_show_nat: "digits_value 10 (show_nat_acc n []) = n"
proof (induction n rule: less_induct)
  case (less n)
  show ?case
  proof (cases "n < 10")
    case True
    then show ?thesis
      by (simp add: show_nat_acc.simps[of n] digits_value_def digit_value_digit_char)
  next
    case False
    then have lt: "n div 10 < n" by simp
    have "show_nat_acc n [] = show_nat_acc (n div 10) [] @ [digit_char (n mod 10)]"
      using False show_nat_acc_append[of "n div 10" "[digit_char (n mod 10)]"]
      by (simp add: show_nat_acc.simps[of n] Let_def)
    then show ?thesis
      using less.IH[OF lt] by (simp add: digits_value_snoc digit_value_digit_char)
  qed
qed

lemma show_nat_head: "\<exists>d cs. d < 10 \<and> show_nat_acc n [] = digit_char d # cs"
proof (induction n rule: less_induct)
  case (less n)
  show ?case
  proof (cases "n < 10")
    case True
    then show ?thesis by (auto simp: show_nat_acc.simps[of n])
  next
    case False
    then have lt: "n div 10 < n" by simp
    have "show_nat_acc n [] = show_nat_acc (n div 10) [] @ [digit_char (n mod 10)]"
      using False show_nat_acc_append[of "n div 10" "[digit_char (n mod 10)]"]
      by (simp add: show_nat_acc.simps[of n] Let_def)
    then show ?thesis using less.IH[OF lt] by auto
  qed
qed

lemma read_int_number_to_string: "read_int (number_to_string i) = i"
proof (cases "0 \<le> i")
  case True
  obtain d cs where d: "d < 10" "show_nat_acc (nat i) [] = digit_char d # cs"
    using show_nat_head by blast
  have "read_int (show_nat_acc (nat i) []) = int (digits_value 10 (show_nat_acc (nat i) []))"
    using d digit_char_not_minus[OF d(1)] by (simp add: read_int_def)
  then show ?thesis using True by (simp add: number_to_string_def digits_value_show_nat)
next
  case False
  then show ?thesis by (simp add: number_to_string_def read_int_def digits_value_show_nat)
qed

lemma number_to_string_inj: "number_to_string a = number_to_string b \<Longrightarrow> a = b"
  by (metis read_int_number_to_string)

lemma etagOf_stamp_inj:
  "etagOf c (number_to_string a) = etagOf c (number_to_string b) \<Longrightarrow> a = b"
  by (simp add: etagOf_def number_to_string_inj)

lemma etagOf_nonempty: "etagOf c s \<noteq> []"
  by (simp add: etagOf_def)

section \<open>Statuses of the responses\<close>



lemma conditional_status:
  "conditionalResponse rt req c ci cl = Some r \<Longrightarrow> status r = 304"
  by (auto simp: conditionalResponse_def notModified_def split: option.splits if_splits)







lemma watermarkOrNow_zero: "watermarkOrNow e 0 w = (clock e (tick w), w\<lparr>tick := Suc (tick w)\<rparr>)"
  by (simp add: watermarkOrNow_def date_now_def)

lemma respondFresh_zero:
  "respondFresh rt e req ft c t f 0 ics w
     = (\<lparr>status = 200, body = Some ics,
          headers =
            [(''Last-Modified'', utcString rt (timeClip (Some (clock e (tick w))))),
             (''ETag'', etagOf c (number_to_string (clock e (Suc (tick w))))),
             (''Cache-Control'', ''public, max-age=3600'')]
            @ contentHeaders req ft t f\<rparr>,
        w\<lparr>tick := Suc (Suc (tick w))\<rparr>)"
  by (simp add: respondFresh_def Let_def watermarkOrNow_zero)

section \<open>Escaped texts\<close>













lemma get_member_mapping:
  "get_member (mappingObject teamId filterType) ''teamId'' = teamId"
  "get_member (mappingObject teamId filterType) ''filterType'' = JStr filterType"
  by (auto simp: mappingObject_def)

section \<open>The examples, step by step\<close>

lemmas example_defs =
  exampleRuntime_def exampleEnv_def exampleApi_def exampleParse_def exampleStringify_def
  exampleDigest_def exampleDateParse_def exampleUTCString_def exampleISOString_def
  exampleLocaleTime_def feedToken_def plainRequest_def sessionStore_def cachedStore_def
  worldOf_def cachedDocument_def mappingJson_def quoted_def tokenKey_def cacheKey_def
  lastUpdateKey_def mappingObject_def

lemmas serve_defs =
  serveCalendar_def serveFromUpstream_def parseCalendarToken_def conditionalResponse_def
  acquireAccessToken_def fetchActualTeamName_def fetchTeamSnapData_def fetch_api_def
  fetchEvents_def eventsResult_def jsonOrNull_def ok_def eventsUrl_def TEAMSNAP_API_URL_def
  applyFilter_def dropCancelled_def find_value_def latestEventUpdate_def cachedResponse_def
  renderCalendar_def renderEvent_def generateEventFromTemplate_def finishEvent_def
  locationText_def customTitleOf_def generateEventDescription_def descArrival_def
  descTitleLine_def descUniform_def descLocation_def descNotes_def escapeDescription_def
  escapeCommas_def escapeNewlines_def calendarHead_def eventObject_def formatDate_def
  respondFresh_def watermarkOrNow_def date_now_def contentHeaders_def utcString_def
  timeClip_def kv_value_def js_or_def present_def etagOf_def textResponse_def
  get_member.simps truthy_json.simps notModified_def kv_put_def kv_delete_def clearCache_def

lemma example_digits: "number_to_string 42 = ''42''" "number_to_string 1 = ''1''"
  "number_to_string 2 = ''2''" "number_to_string 7 = ''7''" "number_to_string 40 = ''40''"
  by (simp_all add: number_to_string_def show_nat_acc.simps digit_char_def)

lemma example_parseInt: "parseInt ''1000'' = Some 1000"
  by (simp add: parseInt_def is_space_def in_radix_def digit_value_def digits_value_def)

lemma example_token:
  "parseCalendarToken exampleRuntime feedToken (worldOf cachedStore)
     = Inr (Some (mappingObject (JNum 42) ''all''))"
  "parseCalendarToken exampleRuntime feedToken (worldOf sessionStore)
     = Inr (Some (mappingObject (JNum 42) ''all''))"
  by (simp_all add: parseCalendarToken_def example_defs number_to_string_def
      show_nat_acc.simps digit_char_def)

lemma example_access:
  "acquireAccessToken (exampleEnv items) (worldOf cachedStore) = (Inr ''token-1'', worldOf cachedStore)"
  "acquireAccessToken (exampleEnv items) (worldOf sessionStore) = (Inr ''token-1'', worldOf sessionStore)"
  by (simp_all add: acquireAccessToken_def example_defs)

lemma example_events:
  "eventsResult (exampleEnv items) (JNum 42) ''token-1'' = Inr items"
  by (simp add: eventsResult_def exampleEnv_def exampleApi_def ok_def eventsUrl_def
      TEAMSNAP_API_URL_def)

lemma example_teamName:
  assumes "kv w ''oauth_access_token'' = Some ''token-1''"
  shows "fetchActualTeamName (exampleEnv items) (JNum 42) w
     = (JStr ''Leafs'', w\<lparr>log := log w @ [Fetch (TEAMSNAP_API_URL @ ''/teams/42'')]\<rparr>)"
  using assms
  by (simp add: fetchActualTeamName_def fetchTeamSnapData_def fetch_api_def jsonOrNull_def ok_def
      present_def exampleEnv_def exampleApi_def example_digits Let_def)

lemma example_fetchEvents:
  "fetchEvents (exampleEnv items) (JNum 42) ''token-1'' w
     = (Inr items, w\<lparr>log := log w @ [Fetch (eventsUrl (JNum 42))]\<rparr>)"
  by (simp add: fetchEvents_def example_events fetch_api_def)

lemma practice_latest:
  "latestEventUpdate exampleRuntime (applyFilter (JStr ''all'') (dropCancelled [practice])) = 0"
  by (simp add: latestEventUpdate_def applyFilter_def dropCancelled_def find_value_def practice_def)


lemma practice_render_named:
  assumes "tick w = 0" "kv w ''custom_team_name_42'' = Some ''Leafs, U12''"
  shows "renderCalendar exampleRuntime (exampleEnv [practice]) (JNum 42) (JStr ''Leafs'') [practice] w
     = (Inr (practiceDocument ''Leafs, U12'' (''Leafs'' @ [backslash] @ '', U12: Practice'')),
        w\<lparr>tick := Suc (Suc 0)\<rparr>)"
  using assms
  by (simp add: serve_defs Let_def example_defs practice_def practiceDocument_def
      example_digits number_to_string_def show_nat_acc.simps digit_char_def in_radix_def
      digit_value_def)

lemma named_token:
  "parseCalendarToken exampleRuntime feedToken (worldOf namedStore)
     = Inr (Some (mappingObject (JNum 42) ''all''))"
  by (simp add: parseCalendarToken_def example_defs namedStore_def number_to_string_def
      show_nat_acc.simps digit_char_def)

lemma named_access:
  "acquireAccessToken (exampleEnv items) (worldOf namedStore) = (Inr ''token-1'', worldOf namedStore)"
  by (simp add: acquireAccessToken_def example_defs namedStore_def)


section \<open>Escaping of the text values of the document\<close>

text \<open>
  Claim C1 says that every comma and every newline inside a text value of the document
  (calendar name, summary, description, location) is escaped. The code escapes commas in the
  summary, the description and the location, and newlines in the description only; the
  calendar name is written as it is. With the custom team name "Leafs, U12" in the store, the
  feed of the practice carries the line \<open>X-WR-CALNAME:Leafs, U12\<close>, whose comma has no
  backslash before it, while the summary line of the same document has the comma escaped.
\<close>

theorem calendar_name_comma_unescaped:
  "fst (serveCalendar exampleRuntime (exampleEnv [practice]) plainRequest feedToken False
          (worldOf namedStore))
     = Inr \<lparr>status = 200,
             body = Some (practiceDocument ''Leafs, U12''
                            (''Leafs'' @ [backslash] @ '', U12: Practice'')),
             headers =
               [(''Last-Modified'', ''Tue, 14 Nov 2023 22:13:20 GMT''),
                (''ETag'', etagOf feedToken ''1700000000003''),
                (''Cache-Control'', ''public, max-age=3600''),
                (''Content-Type'', ''text/calendar; charset=utf-8''),
                (''Content-Disposition'',
                   ''attachment; filename='' @ [dquote] @ ''42_all.ics'' @ [dquote])]\<rparr>
   \<and> \<not> commas_escaped ''Leafs, U12''
   \<and> commas_escaped (''Leafs'' @ [backslash] @ '', U12: Practice'')"
proof -
  let ?w = "worldOf namedStore"
  let ?w3 = "?w\<lparr>log := [Fetch (TEAMSNAP_API_URL @ ''/teams/42'')]\<rparr>"
  let ?w4 = "?w\<lparr>log := [Fetch (TEAMSNAP_API_URL @ ''/teams/42''), Fetch (eventsUrl (JNum 42))]\<rparr>"
  have team: "fetchActualTeamName (exampleEnv [practice]) (JNum 42) ?w = (JStr ''Leafs'', ?w3)"
    using example_teamName[of ?w "[practice]"] by (simp add: worldOf_def namedStore_def sessionStore_def)
  have fetched: "fetchEvents (exampleEnv [practice]) (JNum 42) ''token-1'' ?w3 = (Inr [practice], ?w4)"
    using example_fetchEvents[of "[practice]" ?w3] by simp
  have render: "renderCalendar exampleRuntime (exampleEnv [practice]) (JNum 42) (JStr ''Leafs'')
                  (applyFilter (JStr ''all'') (dropCancelled [practice])) ?w4
                = (Inr (practiceDocument ''Leafs, U12'' (''Leafs'' @ [backslash] @ '', U12: Practice'')),
                   ?w4\<lparr>tick := Suc (Suc 0)\<rparr>)"
    using practice_render_named[of ?w4]
    by (simp add: applyFilter_def dropCancelled_def find_value_def practice_def worldOf_def
        namedStore_def)
  have cond: "conditionalResponse exampleRuntime plainRequest feedToken
                (kv ?w (cacheKey feedToken)) (kv ?w (lastUpdateKey feedToken)) = None"
    by (simp add: conditionalResponse_def example_defs namedStore_def)
  have cach: "cachedResponse exampleRuntime feedToken (JNum 42) (JStr ''all'')
                (kv ?w (cacheKey feedToken)) (kv ?w (lastUpdateKey feedToken)) 0 = None"
    by (simp add: cachedResponse_def example_defs namedStore_def)
  have stamp: "number_to_string (1700000000003) = ''1700000000003''"
    by (simp add: number_to_string_def show_nat_acc.simps digit_char_def)
  have "fst (serveCalendar exampleRuntime (exampleEnv [practice]) plainRequest feedToken False ?w)
     = Inr \<lparr>status = 200,
             body = Some (practiceDocument ''Leafs, U12''
                            (''Leafs'' @ [backslash] @ '', U12: Practice'')),
             headers =
               [(''Last-Modified'', ''Tue, 14 Nov 2023 22:13:20 GMT''),
                (''ETag'', etagOf feedToken ''1700000000003''),
                (''Cache-Control'', ''public, max-age=3600''),
                (''Content-Type'', ''text/calendar; charset=utf-8''),
                (''Content-Disposition'',
                   ''attachment; filename='' @ [dquote] @ ''42_all.ics'' @ [dquote])]\<rparr>"
    using named_token named_access[of "[practice]"] team fetched render cond cach practice_latest
    by (simp add: serveCalendar_def serveFromUpstream_def Let_def mappingObject_def
        plainRequest_def respondFresh_zero contentHeaders_def utcString_def timeClip_def
        exampleEnv_def exampleRuntime_def exampleUTCString_def stamp example_digits)
  moreover have "\<not> commas_escaped ''Leafs, U12''"
    "commas_escaped (''Leafs'' @ [backslash] @ '', U12: Practice'')"
    by (simp_all add: commas_escaped_def)
  ultimately show ?thesis by simp
qed

section \<open>Issued tokens resolve\<close>

text \<open>
  Claim C2, as amended. Where parsing the JSON text of the mapping gives the mapping back:
  after a token is issued for a team id, a filter type and a team name, resolving the token
  gives exactly that team id and filter type, in every later world whose store still holds
  under the token's key what the issue wrote (the mapping has been neither deleted nor
  written again).
\<close>

theorem issued_token_resolves:
  assumes law: "json_parse rt (json_stringify rt (mappingObject teamId filterType))
                  = Some (mappingObject teamId filterType)"
    and empty: "json_parse rt [] = None"
    and issued: "issue rt e teamId filterType teamName w = (token, w1)"
    and kept: "kv w' (tokenKey token) = kv w1 (tokenKey token)"
  shows "parseCalendarToken rt token w' = Inr (Some (mappingObject teamId filterType))
         \<and> get_member (mappingObject teamId filterType) ''teamId'' = teamId
         \<and> get_member (mappingObject teamId filterType) ''filterType'' = JStr filterType"
proof -
  have ne: "json_stringify rt (mappingObject teamId filterType) \<noteq> []"
    using law empty by auto
  have "kv w1 (tokenKey token) = Some (json_stringify rt (mappingObject teamId filterType))"
    using issued by (auto simp: issue_def Let_def kv_put_def)
  then show ?thesis
    using kept law ne by (simp add: parseCalendarToken_def get_member_mapping)
qed

text \<open>
  The theorem at the team 42 named "Leafs": after both of its tokens are issued, the token
  of all events resolves to team 42 and the filter type "all".
\<close>

theorem issued_token_resolves_witness:
  "parseCalendarToken exampleRuntime feedToken
     (snd (issueTeamCalendars exampleRuntime (exampleEnv []) (JNum 42) (JStr ''Leafs'') (worldOf [])))
     = Inr (Some (JObject [(''teamId'', JNum 42), (''filterType'', JStr ''all'')]))
   \<and> fst (issue exampleRuntime (exampleEnv []) (JNum 42) ''all'' (JStr ''Leafs'') (worldOf []))
       = feedToken"
proof -
  have law: "json_parse exampleRuntime (json_stringify exampleRuntime (mappingObject (JNum 42) ''all''))
               = Some (mappingObject (JNum 42) ''all'')"
    by (simp add: exampleRuntime_def exampleParse_def exampleStringify_def mappingObject_def)
  have empty: "json_parse exampleRuntime [] = None"
    by (simp add: exampleRuntime_def exampleParse_def mappingJson_def quoted_def)
  have tok: "generateCalendarToken exampleRuntime (exampleEnv []) (JNum 42) ''all'' (JStr ''Leafs'')
               = feedToken"
    by (simp add: generateCalendarToken_def exampleRuntime_def exampleDigest_def exampleEnv_def
        present_def feedToken_def)
  have issued: "issue exampleRuntime (exampleEnv []) (JNum 42) ''all'' (JStr ''Leafs'') (worldOf [])
                  = (feedToken,
                     kv_put (tokenKey feedToken)
                       (json_stringify exampleRuntime (mappingObject (JNum 42) ''all''))
                       (Some 31536000) (worldOf []))"
    by (simp add: issue_def Let_def tok)
  have kept: "kv (snd (issueTeamCalendars exampleRuntime (exampleEnv []) (JNum 42) (JStr ''Leafs'')
                        (worldOf []))) (tokenKey feedToken)
              = kv (kv_put (tokenKey feedToken)
                       (json_stringify exampleRuntime (mappingObject (JNum 42) ''all''))
                       (Some 31536000) (worldOf [])) (tokenKey feedToken)"
    by (simp add: issueTeamCalendars_def Let_def tok kv_put_def generateCalendarToken_def
        exampleRuntime_def exampleDigest_def exampleEnv_def present_def feedToken_def tokenKey_def)
  show ?thesis
    using issued_token_resolves[OF law empty issued kept] issued
    by (simp add: mappingObject_def)
qed

text \<open>
  The claim as first stated lets the mapping last until it is deleted. The token is a digest
  of the team name, the filter type and the secret, not of the team id: when the teams 1 and
  2 are both named "Leafs", their tokens are the same, the second issue writes over the first
  mapping, and the token issued for team 1 resolves to team 2 although nothing was deleted.
\<close>

theorem same_name_overwrites_mapping:
  "fst (issue exampleRuntime (exampleEnv []) (JNum 1) ''all'' (JStr ''Leafs'') (worldOf []))
     = fst (issue exampleRuntime (exampleEnv []) (JNum 2) ''all'' (JStr ''Leafs'')
              (snd (issue exampleRuntime (exampleEnv []) (JNum 1) ''all'' (JStr ''Leafs'') (worldOf []))))
   \<and> parseCalendarToken exampleRuntime
       (fst (issue exampleRuntime (exampleEnv []) (JNum 1) ''all'' (JStr ''Leafs'') (worldOf [])))
       (snd (issue exampleRuntime (exampleEnv []) (JNum 2) ''all'' (JStr ''Leafs'')
              (snd (issue exampleRuntime (exampleEnv []) (JNum 1) ''all'' (JStr ''Leafs'') (worldOf [])))))
     = Inr (Some (JObject [(''teamId'', JNum 2), (''filterType'', JStr ''all'')]))
   \<and> filter isDelete
       (log (snd (issue exampleRuntime (exampleEnv []) (JNum 2) ''all'' (JStr ''Leafs'')
              (snd (issue exampleRuntime (exampleEnv []) (JNum 1) ''all'' (JStr ''Leafs'') (worldOf []))))))
     = []"
  by (simp add: issue_def Let_def generateCalendarToken_def kv_put_def parseCalendarToken_def
      example_defs present_def isDelete_def example_digits)

section \<open>Serving the cached document\<close>

text \<open>
  Claim C3. For a feed request with a resolvable token, a cached pair, no bypass flag and no
  conditional header that answers it, that has its access token, its team name lookup and
  its events from upstream: when the watermark of the filtered events is at most the cached
  watermark, the response is a 200 whose body is the cached document, whose
  \<open>Last-Modified\<close> is the date of the cached watermark and whose \<open>ETag\<close> is the
  calendar id and the cached watermark text between quotes. No new document is rendered:
  the world the request leaves is the world after the team name lookup with the events
  request as its one further effect (no location lookup, no reading of the clock, no write
  or delete on the store), the cached pair stays as it is and no cache key is written.
\<close>

theorem cache_fresh_serves_cached:
  assumes token: "parseCalendarToken rt calendarId w = Inr (Some tokenData)" "truthy_json tokenData"
    and names: "teamId = get_member tokenData ''teamId''"
      "filterType = get_member tokenData ''filterType''"
    and nobypass: "param_cache req \<noteq> Some ''off''" "param_refresh req \<noteq> Some ''true''"
    and cached: "kv w (cacheKey calendarId) = Some ics" "ics \<noteq> []"
      "kv w (lastUpdateKey calendarId) = Some lastUpdate" "lastUpdate \<noteq> []"
      "parseInt lastUpdate = Some cachedTime"
    and no304: "conditionalResponse rt req calendarId (Some ics) (Some lastUpdate) = None"
    and access: "acquireAccessToken e w = (Inr accessToken, w1)"
    and team: "fetchActualTeamName e teamId w1 = (actualTeamName, w2)"
    and events: "eventsResult e teamId accessToken = Inr items"
    and fresh: "latestEventUpdate rt (applyFilter filterType (dropCancelled items)) \<le> cachedTime"
  shows "serveCalendar rt e req calendarId forceText w
           = (Inr \<lparr>status = 200, body = Some ics,
                    headers =
                      [(''Content-Type'', ''text/calendar; charset=utf-8''),
                       (''Content-Disposition'',
                          ''attachment; filename='' @ [dquote] @ to_str teamId @ ''_''
                          @ to_str filterType @ ''.ics'' @ [dquote]),
                       (''Last-Modified'', utcString rt (timeClip (Some cachedTime))),
                       (''ETag'', [dquote] @ calendarId @ ''-'' @ lastUpdate @ [dquote]),
                       (''Cache-Control'', ''public, max-age=3600'')]\<rparr>,
              w2\<lparr>log := log w2 @ [Fetch (eventsUrl teamId)]\<rparr>)
         \<and> kv (snd (serveCalendar rt e req calendarId forceText w)) (cacheKey calendarId) = Some ics
         \<and> kv (snd (serveCalendar rt e req calendarId forceText w)) (lastUpdateKey calendarId)
             = Some lastUpdate
         \<and> cacheWrites calendarId (snd (serveCalendar rt e req calendarId forceText w))
             = cacheWrites calendarId w"
proof -
  let ?w3 = "w2\<lparr>log := log w2 @ [Fetch (eventsUrl teamId)]\<rparr>"
  have ev: "fetchEvents e teamId accessToken w2 = (Inr items, ?w3)"
    using events by (simp add: fetchEvents_def fetch_api_def)
  have ext: "extends w ?w3"
    using extends_acquire[OF access] extends_teamName[OF team] extends_fetchEvents[OF ev]
    by (blast intro: extends_trans)
  have cr: "cachedResponse rt calendarId teamId filterType (Some ics) (Some lastUpdate)
              (latestEventUpdate rt (applyFilter filterType (dropCancelled items)))
            = Some \<lparr>status = 200, body = Some ics,
                    headers =
                      [(''Content-Type'', ''text/calendar; charset=utf-8''),
                       (''Content-Disposition'',
                          ''attachment; filename='' @ [dquote] @ to_str teamId @ ''_''
                          @ to_str filterType @ ''.ics'' @ [dquote]),
                       (''Last-Modified'', utcString rt (timeClip (Some cachedTime))),
                       (''ETag'', [dquote] @ calendarId @ ''-'' @ lastUpdate @ [dquote]),
                       (''Cache-Control'', ''public, max-age=3600'')]\<rparr>"
    using cached fresh by (simp add: cachedResponse_def etagOf_def)
  have "serveFromUpstream rt e req calendarId forceText teamId filterType (Some ics)
          (Some lastUpdate) w
        = (Inr \<lparr>status = 200, body = Some ics,
                    headers =
                      [(''Content-Type'', ''text/calendar; charset=utf-8''),
                       (''Content-Disposition'',
                          ''attachment; filename='' @ [dquote] @ to_str teamId @ ''_''
                          @ to_str filterType @ ''.ics'' @ [dquote]),
                       (''Last-Modified'', utcString rt (timeClip (Some cachedTime))),
                       (''ETag'', [dquote] @ calendarId @ ''-'' @ lastUpdate @ [dquote]),
                       (''Cache-Control'', ''public, max-age=3600'')]\<rparr>, ?w3)"
    unfolding serveFromUpstream_def Let_def using access team ev cr by simp
  then have serve: "serveCalendar rt e req calendarId forceText w
        = (Inr \<lparr>status = 200, body = Some ics,
                    headers =
                      [(''Content-Type'', ''text/calendar; charset=utf-8''),
                       (''Content-Disposition'',
                          ''attachment; filename='' @ [dquote] @ to_str teamId @ ''_''
                          @ to_str filterType @ ''.ics'' @ [dquote]),
                       (''Last-Modified'', utcString rt (timeClip (Some cachedTime))),
                       (''ETag'', [dquote] @ calendarId @ ''-'' @ lastUpdate @ [dquote]),
                       (''Cache-Control'', ''public, max-age=3600'')]\<rparr>, ?w3)"
    using token names[symmetric] nobypass cached no304 by (simp add: serveCalendar_def Let_def)
  moreover have "kv ?w3 (cacheKey calendarId) = Some ics"
    "kv ?w3 (lastUpdateKey calendarId) = Some lastUpdate"
    using ext cached cacheKey_not_oauth by (auto simp: extends_def)
  moreover have "cacheWrites calendarId ?w3 = cacheWrites calendarId w"
    using ext by (rule cacheWrites_extends)
  ultimately show ?thesis by simp
qed

text \<open>
  The theorem at a cached watermark of 1000 and one event updated at 900: the two upstream
  requests are the only effects, and the clock has not been read.
\<close>

theorem cache_fresh_serves_cached_witness:
  "serveCalendar exampleRuntime (exampleEnv [updatedEarlier]) plainRequest feedToken False
     (worldOf cachedStore)
     = (Inr \<lparr>status = 200, body = Some cachedDocument,
             headers =
               [(''Content-Type'', ''text/calendar; charset=utf-8''),
                (''Content-Disposition'', ''attachment; filename='' @ [dquote] @ ''42_all.ics'' @ [dquote]),
                (''Last-Modified'', ''Thu, 01 Jan 1970 00:00:01 GMT''),
                (''ETag'', [dquote] @ ''efb8e7c42a9a87af11c3e158d9f4dede-1000'' @ [dquote]),
                (''Cache-Control'', ''public, max-age=3600'')]\<rparr>,
        \<lparr>kv = map_of cachedStore,
          log = [Fetch ''https://api.teamsnap.com/v3/teams/42'',
                 Fetch ''https://api.teamsnap.com/v3/events/search?team_id=42''],
          tick = 0\<rparr>)
   \<and> latestEventUpdate exampleRuntime (applyFilter (JStr ''all'') (dropCancelled [updatedEarlier]))
       = 900"
proof -
  let ?w = "worldOf cachedStore"
  have pair: "kv ?w (cacheKey feedToken) = Some cachedDocument"
    "kv ?w (lastUpdateKey feedToken) = Some ''1000''"
    by (simp_all add: example_defs)
  have ne: "cachedDocument \<noteq> []" by (simp add: cachedDocument_def)
  have tj: "truthy_json (mappingObject (JNum 42) ''all'')"
    by (simp add: mappingObject_def)
  have names: "JNum 42 = get_member (mappingObject (JNum 42) ''all'') ''teamId''"
    "JStr ''all'' = get_member (mappingObject (JNum 42) ''all'') ''filterType''"
    by (simp_all add: mappingObject_def)
  have nobypass: "param_cache plainRequest \<noteq> Some ''off''"
    "param_refresh plainRequest \<noteq> Some ''true''"
    by (simp_all add: plainRequest_def)
  have cond: "conditionalResponse exampleRuntime plainRequest feedToken (Some cachedDocument)
                (Some ''1000'') = None"
    by (simp add: conditionalResponse_def plainRequest_def)
  have team: "fetchActualTeamName (exampleEnv [updatedEarlier]) (JNum 42) ?w
                = (JStr ''Leafs'', ?w\<lparr>log := log ?w @ [Fetch (TEAMSNAP_API_URL @ ''/teams/42'')]\<rparr>)"
    by (rule example_teamName)
      (simp add: worldOf_def cachedStore_def sessionStore_def cacheKey_def lastUpdateKey_def)
  have latest: "latestEventUpdate exampleRuntime
                  (applyFilter (JStr ''all'') (dropCancelled [updatedEarlier])) = 900"
    by (simp add: latestEventUpdate_def applyFilter_def dropCancelled_def find_value_def
        updatedEarlier_def exampleRuntime_def exampleDateParse_def timeClip_def)
  have fresh: "latestEventUpdate exampleRuntime
                 (applyFilter (JStr ''all'') (dropCancelled [updatedEarlier])) \<le> 1000"
    by (simp add: latest)
  have lm: "utcString exampleRuntime (timeClip (Some 1000)) = ''Thu, 01 Jan 1970 00:00:01 GMT''"
    by (simp add: utcString_def timeClip_def exampleRuntime_def exampleUTCString_def)
  note main = cache_fresh_serves_cached[OF example_token(1) tj names nobypass pair(1) ne pair(2) _
      example_parseInt cond example_access(1) team example_events fresh,
      where forceText = False, THEN conjunct1]
  show ?thesis
    using main
    by (simp add: latest lm feedToken_def worldOf_def eventsUrl_def TEAMSNAP_API_URL_def
        example_digits)
qed

section \<open>Not modified\<close>

text \<open>
  Claim C4. For a feed request with a resolvable token, a cached pair and no bypass flag:
  when \<open>If-Modified-Since\<close> is a date at or after the cached watermark, or
  \<open>If-None-Match\<close> is the cached entity tag, the response is 304 without a body, and the
  world is left as it was: no upstream request is made and no key of the store is written or
  deleted.
\<close>

theorem not_modified_without_upstream:
  assumes token: "parseCalendarToken rt calendarId w = Inr (Some tokenData)" "truthy_json tokenData"
    and nobypass: "param_cache req \<noteq> Some ''off''" "param_refresh req \<noteq> Some ''true''"
    and cached: "kv w (cacheKey calendarId) = Some ics" "ics \<noteq> []"
      "kv w (lastUpdateKey calendarId) = Some lastUpdate" "lastUpdate \<noteq> []"
    and current:
      "(\<exists>h cachedTime since. if_modified_since req = Some h \<and> h \<noteq> []
          \<and> parseInt lastUpdate = Some cachedTime \<and> valid_time cachedTime
          \<and> date_parse rt h = Some since \<and> valid_time since \<and> cachedTime \<le> since)
       \<or> if_none_match req = Some (etagOf calendarId lastUpdate)"
  shows "serveCalendar rt e req calendarId forceText w
           = (Inr (notModified rt calendarId lastUpdate), w)
         \<and> status (notModified rt calendarId lastUpdate) = 304
         \<and> body (notModified rt calendarId lastUpdate) = None"
proof -
  have "conditionalResponse rt req calendarId (Some ics) (Some lastUpdate)
          = Some (notModified rt calendarId lastUpdate)"
    using cached(2,4) current
    by (auto simp: conditionalResponse_def date_le_def timeClip_def valid_time_def etagOf_nonempty)
  then show ?thesis
    using token nobypass cached
    by (simp add: serveCalendar_def Let_def notModified_def)
qed

text \<open>The theorem at a request that carries the cached entity tag.\<close>

theorem not_modified_without_upstream_witness:
  "serveCalendar exampleRuntime (exampleEnv [])
     (plainRequest\<lparr>if_none_match := Some (etagOf feedToken ''1000'')\<rparr>) feedToken False
     (worldOf cachedStore)
   = (Inr \<lparr>status = 304, body = None,
           headers = [(''Last-Modified'', ''Thu, 01 Jan 1970 00:00:01 GMT''),
                      (''ETag'', etagOf feedToken ''1000''),
                      (''Cache-Control'', ''public, max-age=3600'')]\<rparr>,
      worldOf cachedStore)"
proof -
  have pair: "kv (worldOf cachedStore) (cacheKey feedToken) = Some cachedDocument"
    "kv (worldOf cachedStore) (lastUpdateKey feedToken) = Some ''1000''"
    by (simp_all add: example_defs)
  have ne: "cachedDocument \<noteq> []" by (simp add: cachedDocument_def)
  have lm: "utcString exampleRuntime (timeClip (parseInt ''1000'')) = ''Thu, 01 Jan 1970 00:00:01 GMT''"
    by (simp add: utcString_def timeClip_def parseInt_def is_space_def in_radix_def
        digit_value_def digits_value_def exampleRuntime_def exampleUTCString_def)
  show ?thesis
    using not_modified_without_upstream[OF example_token(1) _ _ _ pair(1) ne pair(2),
        of "plainRequest\<lparr>if_none_match := Some (etagOf feedToken ''1000'')\<rparr>" "exampleEnv []" False]
    by (simp add: plainRequest_def mappingObject_def notModified_def lm)
qed

section \<open>Filtering\<close>

text \<open>
  Claim C5. For the events A (game type "Game", opponent "X"), B (not a game, no game type,
  no opponent) and C (cancelled, whatever else it carries), dropping the cancelled events and
  filtering with "games" leaves exactly A; with "all" it leaves exactly A and B. C is
  excluded under both filter types.
\<close>

theorem filter_scenario:
  "applyFilter (JStr ''games'') (dropCancelled [eventA, eventB, eventC rest]) = [eventA]
   \<and> applyFilter (JStr ''all'') (dropCancelled [eventA, eventB, eventC rest]) = [eventA, eventB]"
  by (simp add: applyFilter_def dropCancelled_def find_value_def eventA_def eventB_def
      eventC_def)

section \<open>Titles of events that are not games\<close>

text \<open>
  Claim C6 says that the multi-team title of an event that is not a game has every occurrence
  of the upstream team name replaced by the custom name, without regard to case, as
  \<open>generateEventTitleSync\<close> does. The loop of \<open>serveCalendar\<close> titles these events in
  place with \<open>includes\<close> and \<open>replace\<close> on strings: only the first occurrence is
  replaced, and only when it is spelled in the same case. With the upstream name "Leafs" and
  the custom name "Cubs", the title "Leafs Practice (Leafs U12)" keeps its second "Leafs" and
  the title "LEAFS Practice" is not changed at all; \<open>generateEventTitleSync\<close> replaces
  both.
\<close>

theorem non_game_title_first_occurrence_only:
  "customTitleOf (map_of [(''custom_team_name_42'', ''Cubs'')])
     (eventObject (sharedIce ''Leafs Practice (Leafs U12)'')) (JNum 42) (JStr ''Leafs'')
     = Inr (JStr ''Cubs Practice (Leafs U12)'')
   \<and> customTitleOf (map_of [(''custom_team_name_42'', ''Cubs'')])
       (eventObject (sharedIce ''LEAFS Practice'')) (JNum 42) (JStr ''Leafs'')
     = Inr (JStr ''LEAFS Practice'')
   \<and> generateEventTitleSync (eventObject (sharedIce ''Leafs Practice (Leafs U12)''))
       (JStr ''Cubs'') (JStr ''Leafs'') False
     = Inr (JStr ''Cubs Practice (Cubs U12)'')
   \<and> generateEventTitleSync (eventObject (sharedIce ''LEAFS Practice''))
       (JStr ''Cubs'') (JStr ''Leafs'') False
     = Inr (JStr ''Cubs Practice'')"
  by (simp add: customTitleOf_def generateEventTitleSync_def substituteTeamName_def
      eventObject_def sharedIce_def kv_value_def js_or_def replace_string_def
      replace_regex_gi_def matches_ci_def upper_def lowerLetters_def upperLetters_def
      example_digits)

section \<open>Tokens that do not resolve\<close>

text \<open>
  Claim C7, as amended. A token whose stored value is absent or empty is answered with 400
  and the world is left as it was. A token whose stored value is not JSON is not answered:
  the \<open>SyntaxError\<close> of \<open>JSON.parse\<close> leaves \<open>serveCalendar\<close> uncaught.
\<close>

theorem unresolved_token_outcomes:
  "(kv w (tokenKey c) = None \<or> kv w (tokenKey c) = Some []
      \<longrightarrow> serveCalendar rt e req c forceText w
            = (Inr (textResponse 400 ''Invalid or expired calendar token.''), w))
   \<and> (\<forall>mapping. kv w (tokenKey c) = Some mapping \<and> mapping \<noteq> [] \<and> json_parse rt mapping = None
      \<longrightarrow> serveCalendar rt e req c forceText w = (Inl SyntaxError, w))"
  by (auto simp: serveCalendar_def parseCalendarToken_def)

text \<open>The theorem at an empty store and at a stored value cut short.\<close>

theorem unresolved_token_outcomes_witness:
  "serveCalendar exampleRuntime (exampleEnv []) plainRequest feedToken False (worldOf [])
     = (Inr (textResponse 400 ''Invalid or expired calendar token.''), worldOf [])
   \<and> serveCalendar exampleRuntime (exampleEnv []) plainRequest feedToken False
       (worldOf [(tokenKey feedToken, ''{teamId'')])
     = (Inl SyntaxError, worldOf [(tokenKey feedToken, ''{teamId'')])"
proof -
  have 1: "kv (worldOf []) (tokenKey feedToken) = None"
    by (simp add: worldOf_def)
  have 2: "kv (worldOf [(tokenKey feedToken, ''{teamId'')]) (tokenKey feedToken) = Some ''{teamId''
           \<and> ''{teamId'' \<noteq> [] \<and> json_parse exampleRuntime ''{teamId'' = None"
    by (simp add: worldOf_def exampleRuntime_def exampleParse_def mappingJson_def quoted_def)
  show ?thesis
    using unresolved_token_outcomes[of "worldOf []" feedToken exampleRuntime "exampleEnv []"
        plainRequest False]
      unresolved_token_outcomes[of "worldOf [(tokenKey feedToken, ''{teamId'')]" feedToken
        exampleRuntime "exampleEnv []" plainRequest False]
      1 2
    by blast
qed

text \<open>
  The claim as first stated treats the two alike. They differ: the value cut short ends the
  request with an exception, the absent value with the 400 response.
\<close>

theorem malformed_mapping_is_not_a_400:
  "fst (serveCalendar exampleRuntime (exampleEnv []) plainRequest feedToken False
          (worldOf [(tokenKey feedToken, ''{teamId'')])) = Inl SyntaxError
   \<and> fst (serveCalendar exampleRuntime (exampleEnv []) plainRequest feedToken False (worldOf []))
       = Inr \<lparr>status = 400, body = Some ''Invalid or expired calendar token.'', headers = []\<rparr>"
  by (simp add: serveCalendar_def parseCalendarToken_def worldOf_def exampleRuntime_def
      exampleParse_def mappingJson_def quoted_def textResponse_def)

section \<open>Failed token refresh\<close>

text \<open>
  Claim C8. When \<open>refreshAccessToken\<close> sends its request and the token endpoint does not
  answer or answers with a status that is not ok, the function returns \<open>null\<close>; the request
  is its only effect, and the store (access token, refresh token and expiry among its keys)
  is what it was before the call.
\<close>

theorem refresh_failure_leaves_store:
  assumes "kv w ''oauth_refresh_token'' = Some refreshToken" "refreshToken \<noteq> []"
    and "request_failed (token_endpoint e (refreshForm e refreshToken))"
  shows "refreshAccessToken e w = (None, w\<lparr>log := log w @ [Fetch TEAMSNAP_TOKEN_URL]\<rparr>)
         \<and> kv (snd (refreshAccessToken e w)) = kv w"
  using assms
  by (auto simp: refreshAccessToken_def fetch_token_def request_failed_def split: http.splits)

text \<open>The theorem at a token endpoint that answers 400.\<close>

theorem refresh_failure_leaves_store_witness:
  "refreshAccessToken (exampleEnv []) (worldOf sessionStore)
     = (None, (worldOf sessionStore)\<lparr>log := [Fetch TEAMSNAP_TOKEN_URL]\<rparr>)
   \<and> kv (snd (refreshAccessToken (exampleEnv []) (worldOf sessionStore))) = kv (worldOf sessionStore)"
proof -
  have 1: "kv (worldOf sessionStore) ''oauth_refresh_token'' = Some ''refresh-1''"
    by (simp add: worldOf_def sessionStore_def)
  have 2: "request_failed (token_endpoint (exampleEnv []) (refreshForm (exampleEnv []) ''refresh-1''))"
    by (simp add: request_failed_def exampleEnv_def ok_def)
  show ?thesis
    using refresh_failure_leaves_store[OF 1 _ 2] by (simp add: worldOf_def)
qed

section \<open>Line breaks of the description\<close>




section \<open>A watermark of zero\<close>




end
